theory Spec2Isabelle
  imports Complex_Main "HOL-Library.Sublist"
begin

section \<open>JavaScript values\<close>

text \<open>
  The values that \<^verbatim>\<open>JSON.parse\<close> and \<^verbatim>\<open>response.json()\<close> produce. A number is the real
  it denotes (only whether it is zero matters below); an object is its list of own
  properties, read with \<open>map_of\<close>. \<open>JUndefined\<close> is \<^verbatim>\<open>undefined\<close>, which a property
  that is not there reads as.
\<close>

datatype json =
    JUndefined
  | JNull
  | JBool bool
  | JNum real
  | JStr string
  | JArr "json list"
  | JObj "(string \<times> json) list"

datatype js_error = TypeError | SyntaxError | LibraryError string

text \<open>JavaScript truthiness: what \<^verbatim>\<open>!x\<close>, \<^verbatim>\<open>if (x)\<close> and \<^verbatim>\<open>x || y\<close> test.\<close>

fun truthy :: "json \<Rightarrow> bool" where
  "truthy JUndefined = False"
| "truthy JNull = False"
| "truthy (JBool b) = b"
| "truthy (JNum x) = (x \<noteq> 0)"
| "truthy (JStr s) = (s \<noteq> [])"
| "truthy (JArr xs) = True"
| "truthy (JObj kvs) = True"

text \<open>A string argument that may be \<^verbatim>\<open>null\<close> or \<^verbatim>\<open>undefined\<close>: falsy when absent or empty.\<close>

fun truthy_str :: "string option \<Rightarrow> bool" where
  "truthy_str None = False"
| "truthy_str (Some s) = (s \<noteq> [])"

text \<open>
  Reading a property \<^verbatim>\<open>v[k]\<close>. On \<^verbatim>\<open>null\<close> and \<^verbatim>\<open>undefined\<close> it throws a TypeError;
  on an object it is the own property or \<^verbatim>\<open>undefined\<close>; booleans, numbers, strings and
  arrays have none of the property names read below, so they give \<^verbatim>\<open>undefined\<close>.
\<close>

definition own_prop :: "(string \<times> json) list \<Rightarrow> string \<Rightarrow> json" where
  "own_prop kvs k = (case map_of kvs k of None \<Rightarrow> JUndefined | Some v \<Rightarrow> v)"

fun get_prop :: "json \<Rightarrow> string \<Rightarrow> js_error + json" where
  "get_prop JUndefined k = Inl TypeError"
| "get_prop JNull k = Inl TypeError"
| "get_prop (JObj kvs) k = Inr (own_prop kvs k)"
| "get_prop v k = Inr JUndefined"

text \<open>\<^verbatim>\<open>a || b\<close> on values already computed.\<close>

definition js_or :: "json \<Rightarrow> json \<Rightarrow> json" where
  "js_or a b = (if truthy a then a else b)"

text \<open>\<^verbatim>\<open>s.includes(sub)\<close>: \<open>sub\<close> occurs in \<open>s\<close> as a contiguous substring.\<close>

fun str_includes :: "string \<Rightarrow> string \<Rightarrow> bool" where
  "str_includes [] sub = (sub = [])"
| "str_includes (c # cs) sub = (prefix sub (c # cs) \<or> str_includes cs sub)"

section \<open>The verifier: \<^verbatim>\<open>verifyTurnstile\<close> (netlify/verify-turnstile.js, lines 1-68)\<close>

record VerificationResult =
  success :: bool
  error :: "string option"

text \<open>
  The outbound request: \<^verbatim>\<open>fetch(url, {method, body: formData, headers})\<close>. The body is
  the \<^verbatim>\<open>URLSearchParams\<close> object, kept as its list of appended pairs.
\<close>

record fetch_request =
  req_url :: string
  req_method :: string
  req_body :: "(string \<times> string) list"
  req_headers :: "(string \<times> string) list"

text \<open>
  What the remote call can do: \<^verbatim>\<open>fetch\<close> rejects, or resolves to a response with its
  \<^verbatim>\<open>ok\<close> flag and the outcome of \<^verbatim>\<open>response.json()\<close>, which rejects or gives a value.
\<close>

datatype json_outcome = JsonThrows js_error | JsonValue json

datatype fetch_outcome = FetchThrows js_error | FetchResponse bool json_outcome

definition not_configured :: VerificationResult where
  "not_configured = \<lparr>success = False, error = Some ''Turnstile verification is not configured''\<rparr>"

definition token_missing :: VerificationResult where
  "token_missing = \<lparr>success = False, error = Some ''Turnstile token is missing''\<rparr>"

definition verification_failed :: VerificationResult where
  "verification_failed =
     \<lparr>success = False, error = Some ''Security verification failed. Please try again.''\<rparr>"

definition verification_error :: VerificationResult where
  "verification_error =
     \<lparr>success = False, error = Some ''Security verification error. Please try again.''\<rparr>"

definition verified :: VerificationResult where
  "verified = \<lparr>success = True, error = None\<rparr>"

text \<open>Lines 25-30: the form data; \<^verbatim>\<open>remoteip\<close> is appended under \<^verbatim>\<open>if (remoteIp)\<close>.\<close>

definition formData :: "string \<Rightarrow> string \<Rightarrow> string option \<Rightarrow> (string \<times> string) list" where
  "formData token secretKey remoteIp =
     [(''secret'', secretKey), (''response'', token)] @
     (case remoteIp of
        None \<Rightarrow> []
      | Some ip \<Rightarrow> if ip \<noteq> [] then [(''remoteip'', ip)] else [])"

definition siteverify_request :: "string \<Rightarrow> string \<Rightarrow> string option \<Rightarrow> fetch_request" where
  "siteverify_request token secretKey remoteIp =
     \<lparr>req_url = ''https://challenges.cloudflare.com/turnstile/v0/siteverify'',
      req_method = ''POST'',
      req_body = formData token secretKey remoteIp,
      req_headers = [(''Content-Type'', ''application/x-www-form-urlencoded'')]\<rparr>"

text \<open>
  Lines 24-58, the body of the \<^verbatim>\<open>try\<close>: the result, or the exception that leaves it,
  with the requests sent.
\<close>

definition verify_try ::
  "(fetch_request \<Rightarrow> fetch_outcome) \<Rightarrow> string \<Rightarrow> string \<Rightarrow> string option
     \<Rightarrow> (js_error + VerificationResult) \<times> fetch_request list" where
  "verify_try fetch token secretKey remoteIp =
     (let req = siteverify_request token secretKey remoteIp in
      (case fetch req of
         FetchThrows e \<Rightarrow> Inl e
       | FetchResponse ok js \<Rightarrow>
           if \<not> ok then Inr verification_failed
           else (case js of
                   JsonThrows e \<Rightarrow> Inl e
                 | JsonValue data \<Rightarrow>
                     (case get_prop data ''success'' of
                        Inl e \<Rightarrow> Inl e
                      | Inr s \<Rightarrow>
                          if \<not> truthy s then Inr verification_failed
                          else Inr verified)),
       [req]))"

text \<open>
  \<^verbatim>\<open>verifyTurnstile(token, secretKey, remoteIp = null)\<close>. The result is what the promise
  settles to (\<open>Inl\<close>: it rejects), paired with the outbound requests made, in order.
\<close>

definition verifyTurnstile ::
  "(fetch_request \<Rightarrow> fetch_outcome) \<Rightarrow> string option \<Rightarrow> string option \<Rightarrow> string option
     \<Rightarrow> (js_error + VerificationResult) \<times> fetch_request list" where
  "verifyTurnstile fetch token secretKey remoteIp =
     (case secretKey of
        None \<Rightarrow> (Inr not_configured, [])
      | Some sk \<Rightarrow>
          if sk = [] then (Inr not_configured, [])
          else (case token of
                  None \<Rightarrow> (Inr token_missing, [])
                | Some tk \<Rightarrow>
                    if tk = [] then (Inr token_missing, [])
                    else (case verify_try fetch tk sk remoteIp of
                            (Inl e, reqs) \<Rightarrow> (Inr verification_error, reqs)
                          | (Inr r, reqs) \<Rightarrow> (Inr r, reqs))))"

section \<open>The token extractor: \<^verbatim>\<open>getTurnstileToken\<close> (netlify/verify-turnstile.js, lines 70-164)\<close>

text \<open>
  The handler event. \<^verbatim>\<open>event.headers\<close> may be absent (\<open>None\<close>); a header that is not in
  the object reads as \<^verbatim>\<open>undefined\<close>; \<^verbatim>\<open>event.body\<close> may be absent.
\<close>

record event =
  headers :: "(string \<rightharpoonup> string) option"
  body :: "string option"
  isBase64Encoded :: bool

text \<open>
  What \<^verbatim>\<open>getBodyBuffer\<close> builds, kept as the constructor call that made it:
  \<^verbatim>\<open>Buffer.alloc(0)\<close>, \<^verbatim>\<open>Buffer.from(body, 'base64')\<close> or \<^verbatim>\<open>Buffer.from(body, 'utf8')\<close>.
\<close>

datatype buffer = Buffer_alloc0 | Buffer_base64 string | Buffer_utf8 string

text \<open>
  The library functions the extractor calls, none of them code of this repository:
  \<^verbatim>\<open>JSON.parse\<close> (\<open>None\<close>: it throws a SyntaxError), the pairs that
  \<^verbatim>\<open>new URLSearchParams(text)\<close> holds, in order, the fields that busboy emits for a content
  type and a body before \<^verbatim>\<open>finish\<close> (\<open>Inl\<close>: it throws or emits \<^verbatim>\<open>error\<close>), and
  \<^verbatim>\<open>Buffer.from(s, 'base64').toString('utf8')\<close>.
\<close>

record js_lib =
  JSON_parse :: "string \<Rightarrow> json option"
  URLSearchParams :: "string \<Rightarrow> (string \<times> string) list"
  busboy :: "string \<Rightarrow> buffer \<Rightarrow> js_error + (string \<times> string) list"
  base64_utf8 :: "string \<Rightarrow> string"

text \<open>
  \<^verbatim>\<open>getBodyBuffer\<close> and \<^verbatim>\<open>getTextBody\<close> (lines 144-162) both start with \<^verbatim>\<open>if (!event.body)\<close>,
  which an absent and an empty body take.
\<close>

definition getBodyBuffer :: "event \<Rightarrow> buffer" where
  "getBodyBuffer ev =
     (case body ev of
        None \<Rightarrow> Buffer_alloc0
      | Some b \<Rightarrow>
          if b = [] then Buffer_alloc0
          else if isBase64Encoded ev then Buffer_base64 b
          else Buffer_utf8 b)"

definition getTextBody :: "js_lib \<Rightarrow> event \<Rightarrow> string" where
  "getTextBody lib ev =
     (case body ev of
        None \<Rightarrow> []
      | Some b \<Rightarrow>
          if b = [] then []
          else if isBase64Encoded ev then base64_utf8 lib b
          else b)"

text \<open>
  \<^verbatim>\<open>parseMultipart\<close>: the \<^verbatim>\<open>field\<close> handler overwrites \<^verbatim>\<open>token\<close> at every field named
  \<^verbatim>\<open>cf-turnstile-response\<close>; an error rejects the promise.
\<close>

definition on_field :: "json \<Rightarrow> string \<times> string \<Rightarrow> json" where
  "on_field token f = (if fst f = ''cf-turnstile-response'' then JStr (snd f) else token)"

definition parseMultipart :: "js_lib \<Rightarrow> event \<Rightarrow> string \<Rightarrow> js_error + json" where
  "parseMultipart lib ev contentType =
     (case busboy lib contentType (getBodyBuffer ev) of
        Inl e \<Rightarrow> Inl e
      | Inr fs \<Rightarrow> Inr (foldl on_field JNull fs))"

text \<open>\<^verbatim>\<open>h[a] || h[b]\<close> on a headers object.\<close>

definition header_or :: "(string \<rightharpoonup> string) \<Rightarrow> string \<Rightarrow> string \<Rightarrow> string option" where
  "header_or h a b = (if truthy_str (h a) then h a else h b)"

text \<open>\<^verbatim>\<open>params.get(k)\<close>: the first value under \<open>k\<close>, or \<^verbatim>\<open>null\<close>.\<close>

definition params_get :: "(string \<times> string) list \<Rightarrow> string \<Rightarrow> json" where
  "params_get params k = (case map_of params k of None \<Rightarrow> JNull | Some v \<Rightarrow> JStr v)"

text \<open>
  Lines 101-112, the JSON branch:
  \<^verbatim>\<open>payload['cf-turnstile-response'] || payload.cfTurnstileResponse || null\<close> inside a
  \<^verbatim>\<open>try\<close> whose \<^verbatim>\<open>catch\<close> returns \<^verbatim>\<open>null\<close>.
\<close>

definition json_token_try :: "js_lib \<Rightarrow> event \<Rightarrow> js_error + json" where
  "json_token_try lib ev =
     (case JSON_parse lib (getTextBody lib ev) of
        None \<Rightarrow> Inl SyntaxError
      | Some payload \<Rightarrow>
          (case get_prop payload ''cf-turnstile-response'' of
             Inl e \<Rightarrow> Inl e
           | Inr a \<Rightarrow>
               if truthy a then Inr a
               else (case get_prop payload ''cfTurnstileResponse'' of
                       Inl e \<Rightarrow> Inl e
                     | Inr b \<Rightarrow> Inr (js_or b JNull))))"

definition json_token :: "js_lib \<Rightarrow> event \<Rightarrow> json" where
  "json_token lib ev = (case json_token_try lib ev of Inl e \<Rightarrow> JNull | Inr v \<Rightarrow> v)"

text \<open>
  Lines 88-115. Line 88 reads \<^verbatim>\<open>event.headers['content-type']\<close> on \<^verbatim>\<open>event.headers\<close>
  itself, not on the \<^verbatim>\<open>headers\<close> of line 80: it throws a TypeError when the event has
  no headers object.
\<close>

definition token_from_body :: "js_lib \<Rightarrow> event \<Rightarrow> js_error + json" where
  "token_from_body lib ev =
     (case headers ev of
        None \<Rightarrow> Inl TypeError
      | Some h \<Rightarrow>
          (let contentType =
                 (case header_or h ''content-type'' ''Content-Type'' of
                    None \<Rightarrow> []
                  | Some c \<Rightarrow> c)
           in if str_includes contentType ''multipart/form-data''
              then parseMultipart lib ev contentType
              else if str_includes contentType ''application/x-www-form-urlencoded''
              then Inr (params_get (URLSearchParams lib (getTextBody lib ev))
                          ''cf-turnstile-response'')
              else if str_includes contentType ''application/json''
              then Inr (json_token lib ev)
              else Inr JNull))"

text \<open>
  \<^verbatim>\<open>getTurnstileToken(event)\<close>: what the promise settles to (\<open>Inl\<close>: it rejects; \<open>JNull\<close> is
  \<^verbatim>\<open>null\<close>). Lines 80-86: \<^verbatim>\<open>headers = event.headers || {}\<close>, then the token header under
  its two spellings, returned when truthy.
\<close>

definition getTurnstileToken :: "js_lib \<Rightarrow> event \<Rightarrow> js_error + json" where
  "getTurnstileToken lib ev =
     (let hdrs = (case headers ev of None \<Rightarrow> Map.empty | Some h \<Rightarrow> h);
          headerToken = header_or hdrs ''x-turnstile-token'' ''X-Turnstile-Token''
      in (case headerToken of
            Some t \<Rightarrow> if t \<noteq> [] then Inr (JStr t) else token_from_body lib ev
          | None \<Rightarrow> token_from_body lib ev))"

section \<open>The refresh controller: \<^verbatim>\<open>setupAutoRefresh\<close> (src/turnstile-client.ts)\<close>

text \<open>
  The callbacks the controller hands to \<^verbatim>\<open>setInterval\<close> and \<^verbatim>\<open>setTimeout\<close>, by the line that
  registers them: the script check (line 117), its 5000 ms stop (line 125), the 500 ms
  grace after \<^verbatim>\<open>load\<close> (line 112), the widget-id poll (line 71), its 10000 ms stop (line 94)
  and the recurring reset (line 80), which closes over the widget id it was started with.
\<close>

datatype callback =
    CheckScript
  | ScriptTimeout
  | LoadGrace
  | CheckWidget
  | InitTimeout
  | ResetWidget string

text \<open>
  A pending timer of the page: its handle, the time it fires next, and its period
  (\<open>None\<close> for a \<^verbatim>\<open>setTimeout\<close>, which fires once).
\<close>

record timer =
  tid :: nat
  due :: nat
  period :: "nat option"
  cb :: callback

text \<open>
  The page and, in it, one refresh session. The page part: the clock (ms), the pending
  timers, the next timer handle, whether \<^verbatim>\<open>window.turnstile\<close> is defined, the widget's
  \<^verbatim>\<open>data-widget-id\<close> attribute and whether \<^verbatim>\<open>load\<close> has been dispatched. The session part is
  the closure of \<^verbatim>\<open>setupAutoRefresh\<close>: its three \<^verbatim>\<open>let\<close> variables (lines 46-48), the
  \<^verbatim>\<open>checkScript\<close> constant of line 117 and whether \<^verbatim>\<open>loadHandler\<close> is registered. \<open>resets\<close>
  logs every call of \<^verbatim>\<open>window.turnstile.reset\<close> with its time and argument.
\<close>

record page =
  now :: nat
  timers :: "timer list"
  nextId :: nat
  window_turnstile :: bool
  data_widget_id :: "string option"
  loaded :: bool
  turnstileResetInterval :: "nat option"
  checkWidgetInterval :: "nat option"
  isCleanedUp :: bool
  checkScript :: "nat option"
  loadHandler :: bool
  resets :: "(nat \<times> string) list"

text \<open>The arguments of \<^verbatim>\<open>setupAutoRefresh\<close>: whether \<^verbatim>\<open>widget\<close> is non-null, and the interval.\<close>

record config =
  widget :: bool
  refreshInterval :: nat

definition DEFAULT_REFRESH_INTERVAL :: nat where
  "DEFAULT_REFRESH_INTERVAL = 120000"

definition WIDGET_INIT_TIMEOUT :: nat where
  "WIDGET_INIT_TIMEOUT = 10000"

definition WIDGET_CHECK_INTERVAL :: nat where
  "WIDGET_CHECK_INTERVAL = 100"

subsection \<open>The browser's timers\<close>

definition setInterval :: "callback \<Rightarrow> nat \<Rightarrow> page \<Rightarrow> nat \<times> page" where
  "setInterval c delay s =
     (nextId s,
      s\<lparr>timers := timers s @ [\<lparr>tid = nextId s, due = now s + delay, period = Some delay, cb = c\<rparr>],
        nextId := Suc (nextId s)\<rparr>)"

definition setTimeout :: "callback \<Rightarrow> nat \<Rightarrow> page \<Rightarrow> nat \<times> page" where
  "setTimeout c delay s =
     (nextId s,
      s\<lparr>timers := timers s @ [\<lparr>tid = nextId s, due = now s + delay, period = None, cb = c\<rparr>],
        nextId := Suc (nextId s)\<rparr>)"

text \<open>\<^verbatim>\<open>clearInterval(h)\<close>: the timer is gone; a handle that names no timer is ignored.\<close>

definition clearInterval :: "nat \<Rightarrow> page \<Rightarrow> page" where
  "clearInterval h s = s\<lparr>timers := filter (\<lambda>t. tid t \<noteq> h) (timers s)\<rparr>"

subsection \<open>The closures of \<^verbatim>\<open>setupAutoRefresh\<close>\<close>

text \<open>Lines 50-63.\<close>

definition cleanup :: "page \<Rightarrow> page" where
  "cleanup s =
     (if isCleanedUp s then s
      else
        let s1 = s\<lparr>isCleanedUp := True\<rparr>;
            s2 = (case turnstileResetInterval s1 of
                    None \<Rightarrow> s1
                  | Some h \<Rightarrow> (clearInterval h s1)\<lparr>turnstileResetInterval := None\<rparr>);
            s3 = (case checkWidgetInterval s2 of
                    None \<Rightarrow> s2
                  | Some h \<Rightarrow> (clearInterval h s2)\<lparr>checkWidgetInterval := None\<rparr>)
        in s3)"

text \<open>Lines 95-98 and 74-77: clear the poll if its handle is set.\<close>

definition clearCheckWidget :: "page \<Rightarrow> page" where
  "clearCheckWidget s =
     (case checkWidgetInterval s of
        None \<Rightarrow> s
      | Some h \<Rightarrow> (clearInterval h s)\<lparr>checkWidgetInterval := None\<rparr>)"

text \<open>
  Lines 65-100, \<^verbatim>\<open>setupReset\<close>: it returns at once without a widget or without the API;
  otherwise it starts the poll, stores its handle over whatever the variable held, and
  starts the poll's timeout.
\<close>

definition setupReset :: "config \<Rightarrow> page \<Rightarrow> page" where
  "setupReset cfg s =
     (if \<not> widget cfg then s
      else if \<not> window_turnstile s then s
      else
        let (h, s1) = setInterval CheckWidget WIDGET_CHECK_INTERVAL s;
            s2 = s1\<lparr>checkWidgetInterval := Some h\<rparr>;
            (h', s3) = setTimeout InitTimeout WIDGET_INIT_TIMEOUT s2
        in s3)"

text \<open>
  What each callback does when its timer fires. The reset callback's \<^verbatim>\<open>try\<close> catches
  whatever \<^verbatim>\<open>reset\<close> throws, so it always returns; with \<^verbatim>\<open>window.turnstile\<close> undefined the
  call itself is a caught TypeError and \<^verbatim>\<open>reset\<close> is not reached.
\<close>

fun run_callback :: "config \<Rightarrow> callback \<Rightarrow> page \<Rightarrow> page" where
  "run_callback cfg CheckWidget s =
     (case data_widget_id s of
        None \<Rightarrow> s
      | Some widgetId \<Rightarrow>
          if widgetId = [] then s
          else
            let s1 = clearCheckWidget s;
                (h, s2) = setInterval (ResetWidget widgetId) (refreshInterval cfg) s1
            in s2\<lparr>turnstileResetInterval := Some h\<rparr>)"
| "run_callback cfg (ResetWidget widgetId) s =
     (if window_turnstile s then s\<lparr>resets := resets s @ [(now s, widgetId)]\<rparr> else s)"
| "run_callback cfg InitTimeout s = clearCheckWidget s"
| "run_callback cfg CheckScript s =
     (if window_turnstile s
      then setupReset cfg (case checkScript s of None \<Rightarrow> s | Some h \<Rightarrow> clearInterval h s)
      else s)"
| "run_callback cfg ScriptTimeout s =
     (case checkScript s of None \<Rightarrow> s | Some h \<Rightarrow> clearInterval h s)"
| "run_callback cfg LoadGrace s = setupReset cfg s"

text \<open>
  A page on which nothing has run yet: whether the API is already there, the widget's
  id attribute, and whether \<^verbatim>\<open>load\<close> has already been dispatched.
\<close>

definition new_page :: "bool \<Rightarrow> string option \<Rightarrow> bool \<Rightarrow> page" where
  "new_page api wid ld =
     \<lparr>now = 0, timers = [], nextId = 1, window_turnstile = api, data_widget_id = wid,
      loaded = ld, turnstileResetInterval = None, checkWidgetInterval = None,
      isCleanedUp = False, checkScript = None, loadHandler = False, resets = []\<rparr>"

text \<open>
  Lines 36-131, \<^verbatim>\<open>setupAutoRefresh(widget, options)\<close>. The function it returns is
  \<open>cleanup\<close>, which is also the \<^verbatim>\<open>beforeunload\<close> listener (line 103).
\<close>

definition setupAutoRefresh :: "config \<Rightarrow> page \<Rightarrow> page" where
  "setupAutoRefresh cfg s =
     (let s0 = s\<lparr>turnstileResetInterval := None, checkWidgetInterval := None,
                  isCleanedUp := False\<rparr>
      in if window_turnstile s0 then setupReset cfg s0
         else
           let s1 = s0\<lparr>loadHandler := True\<rparr>;
               (h, s2) = setInterval CheckScript 100 s1;
               s3 = s2\<lparr>checkScript := Some h\<rparr>;
               (h', s4) = setTimeout ScriptTimeout 5000 s3
           in s4)"

subsection \<open>What can happen on the page\<close>

text \<open>
  A timer fires, time passes, the application calls the teardown function, the page
  unloads, \<^verbatim>\<open>load\<close> is dispatched, the vendor script defines or removes
  \<^verbatim>\<open>window.turnstile\<close>, or it writes the widget's id attribute.
\<close>

datatype page_event =
    Fire nat
  | Elapse nat
  | Teardown
  | BeforeUnload
  | Load
  | SetTurnstile bool
  | SetWidgetId "string option"

text \<open>
  One event (\<open>None\<close>: it cannot happen now). A timer fires only when no pending timer
  is due earlier; the clock moves to its due time, a timeout is dropped and an interval
  rescheduled one period on, and then its callback runs. Time passes only up to the
  next due time. \<^verbatim>\<open>load\<close> is dispatched once.
\<close>

definition fire :: "config \<Rightarrow> timer \<Rightarrow> page \<Rightarrow> page" where
  "fire cfg t s =
     (let s1 = s\<lparr>now := due t\<rparr>;
          s2 = (case period t of
                  None \<Rightarrow> clearInterval (tid t) s1
                | Some p \<Rightarrow>
                    s1\<lparr>timers := map (\<lambda>u. if tid u = tid t then u\<lparr>due := due u + p\<rparr> else u)
                                    (timers s1)\<rparr>)
      in run_callback cfg (cb t) s2)"

fun step :: "config \<Rightarrow> page_event \<Rightarrow> page \<Rightarrow> page option" where
  "step cfg (Fire h) s =
     (case find (\<lambda>t. tid t = h) (timers s) of
        None \<Rightarrow> None
      | Some t \<Rightarrow>
          if list_all (\<lambda>u. due t \<le> due u) (timers s) then Some (fire cfg t s) else None)"
| "step cfg (Elapse d) s =
     (if list_all (\<lambda>u. now s + d \<le> due u) (timers s) then Some (s\<lparr>now := now s + d\<rparr>)
      else None)"
| "step cfg Teardown s = Some (cleanup s)"
| "step cfg BeforeUnload s = Some (cleanup s)"
| "step cfg Load s =
     (if loaded s then None
      else if loadHandler s then Some (snd (setTimeout LoadGrace 500 (s\<lparr>loaded := True\<rparr>)))
      else Some (s\<lparr>loaded := True\<rparr>))"
| "step cfg (SetTurnstile b) s = Some (s\<lparr>window_turnstile := b\<rparr>)"
| "step cfg (SetWidgetId w) s = Some (s\<lparr>data_widget_id := w\<rparr>)"

fun run :: "config \<Rightarrow> page_event list \<Rightarrow> page \<Rightarrow> page option" where
  "run cfg [] s = Some s"
| "run cfg (e # es) s = (case step cfg e s of None \<Rightarrow> None | Some s' \<Rightarrow> run cfg es s')"

text \<open>The pending poll timers and the pending reset timers, by handle.\<close>

fun is_reset :: "callback \<Rightarrow> bool" where
  "is_reset (ResetWidget w) = True"
| "is_reset c = False"

definition poll_timers :: "page \<Rightarrow> nat list" where
  "poll_timers s = map tid (filter (\<lambda>t. cb t = CheckWidget) (timers s))"

definition reset_timers :: "page \<Rightarrow> nat list" where
  "reset_timers s = map tid (filter (\<lambda>t. is_reset (cb t)) (timers s))"

text \<open>
  The invariant of a session whose \<^verbatim>\<open>setupReset\<close> ran at setup: timer handles are
  distinct and below the next handle; every pending timer is the poll whose handle
  \<open>checkWidgetInterval\<close> holds, a poll timeout, or the reset timer whose handle
  \<open>turnstileResetInterval\<close> holds; no load handler is registered; the two handles are
  never both set, and neither is set after teardown.
\<close>

definition sync_inv :: "page \<Rightarrow> bool" where
  "sync_inv s \<longleftrightarrow>
     distinct (map tid (timers s))
     \<and> (\<forall>t\<in>set (timers s).
           tid t < nextId s
           \<and> (cb t = CheckWidget \<and> checkWidgetInterval s = Some (tid t)
              \<or> cb t = InitTimeout
              \<or> is_reset (cb t) \<and> turnstileResetInterval s = Some (tid t)))
     \<and> \<not> loadHandler s
     \<and> (checkWidgetInterval s = None \<or> turnstileResetInterval s = None)
     \<and> (\<not> isCleanedUp s \<or> checkWidgetInterval s = None \<and> turnstileResetInterval s = None)"

section \<open>Sample inputs\<close>

text \<open>Remote behaviours of the verification endpoint.\<close>

definition remote_says :: "json \<Rightarrow> fetch_request \<Rightarrow> fetch_outcome" where
  "remote_says data req = FetchResponse True (JsonValue data)"

definition remote_status_500 :: "fetch_request \<Rightarrow> fetch_outcome" where
  "remote_status_500 req = FetchResponse False (JsonValue JUndefined)"

definition network_down :: "fetch_request \<Rightarrow> fetch_outcome" where
  "network_down req = FetchThrows (LibraryError ''Network error'')"

definition remote_malformed :: "fetch_request \<Rightarrow> fetch_outcome" where
  "remote_malformed req = FetchResponse True (JsonThrows SyntaxError)"

text \<open>Header names compared without case: ASCII letters lower-cased.\<close>

definition lower_char :: "char \<Rightarrow> char" where
  "lower_char c =
     (let n = (of_char c :: nat) in if 65 \<le> n \<and> n \<le> 90 then char_of (n + 32) else c)"

definition toLowerCase :: "string \<Rightarrow> string" where
  "toLowerCase s = map lower_char s"

text \<open>Request bodies: JSON texts, form bodies (one with its base64 form) and a multipart body.\<close>

definition crlf :: string where
  "crlf = [CHR 0x0D, CHR 0x0A]"

definition json_empty_token :: string where
  \<open>json_empty_token = ''{"cf-turnstile-response":""}''\<close>

definition json_camel_token :: string where
  \<open>json_camel_token = ''{"cfTurnstileResponse":"camel-token-123"}''\<close>

definition json_both_tokens :: string where
  \<open>json_both_tokens = ''{"cf-turnstile-response":"","cfTurnstileResponse":"camel-token-123"}''\<close>

definition json_token_body :: string where
  \<open>json_token_body = ''{"cf-turnstile-response":"json-token-123"}''\<close>

definition form_body :: string where
  "form_body = ''cf-turnstile-response=form-token-123&other=value''"

definition encoded_form_body :: string where
  "encoded_form_body = ''cf-turnstile-response=encoded-token-123''"

definition encoded_form_body_base64 :: string where
  "encoded_form_body_base64 = ''Y2YtdHVybnN0aWxlLXJlc3BvbnNlPWVuY29kZWQtdG9rZW4tMTIz''"

definition multipart_body :: string where
  \<open>multipart_body =
     ''--XyZ'' @ crlf @
     ''Content-Disposition: form-data; name="cf-turnstile-response"'' @ crlf @ crlf @
     ''multipart-token-123'' @ crlf @
     ''--XyZ--'' @ crlf\<close>

text \<open>
  What the library functions return on these bodies. Outside the bodies listed the
  tables answer with a failure or with nothing, which says nothing about the library.
\<close>

definition sample_JSON_parse :: "string \<Rightarrow> json option" where
  "sample_JSON_parse s =
     (if s = json_empty_token then Some (JObj [(''cf-turnstile-response'', JStr '''')])
      else if s = json_camel_token
      then Some (JObj [(''cfTurnstileResponse'', JStr ''camel-token-123'')])
      else if s = json_both_tokens
      then Some (JObj [(''cf-turnstile-response'', JStr ''''),
                       (''cfTurnstileResponse'', JStr ''camel-token-123'')])
      else if s = json_token_body
      then Some (JObj [(''cf-turnstile-response'', JStr ''json-token-123'')])
      else None)"

definition sample_URLSearchParams :: "string \<Rightarrow> (string \<times> string) list" where
  "sample_URLSearchParams s =
     (if s = form_body
      then [(''cf-turnstile-response'', ''form-token-123''), (''other'', ''value'')]
      else if s = encoded_form_body
      then [(''cf-turnstile-response'', ''encoded-token-123'')]
      else [])"

definition sample_busboy :: "string \<Rightarrow> buffer \<Rightarrow> js_error + (string \<times> string) list" where
  "sample_busboy ct buf =
     (if ct = ''multipart/form-data; boundary=XyZ'' \<and> buf = Buffer_utf8 multipart_body
      then Inr [(''cf-turnstile-response'', ''multipart-token-123'')]
      else Inl (LibraryError ''Unexpected end of form''))"

definition sample_base64_utf8 :: "string \<Rightarrow> string" where
  "sample_base64_utf8 s =
     (if s = encoded_form_body_base64 then encoded_form_body else [])"

definition sample_lib :: js_lib where
  "sample_lib =
     \<lparr>JSON_parse = sample_JSON_parse,
      URLSearchParams = sample_URLSearchParams,
      busboy = sample_busboy,
      base64_utf8 = sample_base64_utf8\<rparr>"

text \<open>A session with a widget and a refresh interval of one second.\<close>

definition sample_config :: config where
  "sample_config = \<lparr>widget = True, refreshInterval = 1000\<rparr>"

section \<open>The verifier's results\<close>

lemma verifyTurnstile_truthy:
  assumes "tk \<noteq> []" and "sk \<noteq> []"
  shows "verifyTurnstile fetch (Some tk) (Some sk) ip =
           (case fst (verify_try fetch tk sk ip) of
              Inl e \<Rightarrow> Inr verification_error
            | Inr r \<Rightarrow> Inr r, [siteverify_request tk sk ip])"
  using assms
  by (simp add: verifyTurnstile_def verify_try_def Let_def split: sum.splits prod.splits)

text \<open>
  Claim C5. For every token, secret key and remote address, \<^verbatim>\<open>verifyTurnstile\<close> checks
  its preconditions in order. A falsy secret key (absent or empty) gives
  \<^verbatim>\<open>{success: false, error: "Turnstile verification is not configured"}\<close> and no outbound
  request, whatever the token is; otherwise a falsy token gives
  \<^verbatim>\<open>{success: false, error: "Turnstile token is missing"}\<close> and no outbound request. The two
  messages differ from each other and from the two generic failure messages.
\<close>

theorem verify_preconditions:
  "(\<not> truthy_str secretKey \<longrightarrow>
      verifyTurnstile fetch token secretKey remoteIp = (Inr not_configured, []))
   \<and> (truthy_str secretKey \<and> \<not> truthy_str token \<longrightarrow>
      verifyTurnstile fetch token secretKey remoteIp = (Inr token_missing, []))
   \<and> not_configured = \<lparr>success = False, error = Some ''Turnstile verification is not configured''\<rparr>
   \<and> token_missing = \<lparr>success = False, error = Some ''Turnstile token is missing''\<rparr>
   \<and> distinct [error not_configured, error token_missing,
                error verification_failed, error verification_error]"
proof -
  have a: "\<not> truthy_str secretKey \<longrightarrow>
      verifyTurnstile fetch token secretKey remoteIp = (Inr not_configured, [])"
    by (cases secretKey) (simp_all add: verifyTurnstile_def)
  have b: "truthy_str secretKey \<and> \<not> truthy_str token \<longrightarrow>
      verifyTurnstile fetch token secretKey remoteIp = (Inr token_missing, [])"
    by (cases secretKey; cases token) (simp_all add: verifyTurnstile_def)
  have c: "distinct [error not_configured, error token_missing,
                error verification_failed, error verification_error]"
    by (simp add: not_configured_def token_missing_def verification_failed_def
        verification_error_def)
  show ?thesis
    using a b c by (simp add: not_configured_def token_missing_def)
qed

text \<open>
  The theorem at the calls of the repository's tests: an empty secret, no secret and no
  token at all, and an empty token with a secret.
\<close>

theorem verify_preconditions_witness:
  "verifyTurnstile network_down (Some ''token'') (Some '''') None = (Inr not_configured, [])
   \<and> verifyTurnstile network_down None None (Some ''203.0.113.7'') = (Inr not_configured, [])
   \<and> verifyTurnstile network_down (Some '''') (Some ''secret'') None = (Inr token_missing, [])"
  using
    verify_preconditions [where secretKey = "Some ''''" and fetch = network_down
      and token = "Some ''token''" and remoteIp = None]
    verify_preconditions [where secretKey = None and fetch = network_down
      and token = None and remoteIp = "Some ''203.0.113.7''"]
    verify_preconditions [where secretKey = "Some ''secret''" and fetch = network_down
      and token = "Some ''''" and remoteIp = None]
  by simp

text \<open>
  Claim C4. For a token and a secret that pass the falsy checks, the result is decided by
  the remote response: a response whose \<^verbatim>\<open>ok\<close> is false gives the message
  ``Security verification failed. Please try again.''; a parsed object whose \<^verbatim>\<open>success\<close>
  is falsy gives the same message; a parsed object whose \<^verbatim>\<open>success\<close> is truthy gives
  \<^verbatim>\<open>{success: true}\<close> with no error; a rejected \<^verbatim>\<open>fetch\<close> or a rejected
  \<^verbatim>\<open>response.json()\<close> gives ``Security verification error. Please try again.''. The
  promise always resolves (\<open>Inr\<close>): \<^verbatim>\<open>verifyTurnstile\<close> never throws.
\<close>

theorem verify_response_handling:
  assumes "tk \<noteq> []" and "sk \<noteq> []"
  shows "(\<forall>js. fetch (siteverify_request tk sk ip) = FetchResponse False js \<longrightarrow>
            fst (verifyTurnstile fetch (Some tk) (Some sk) ip) = Inr verification_failed)
       \<and> (\<forall>kvs. fetch (siteverify_request tk sk ip) = FetchResponse True (JsonValue (JObj kvs))
                  \<and> \<not> truthy (own_prop kvs ''success'') \<longrightarrow>
            fst (verifyTurnstile fetch (Some tk) (Some sk) ip) = Inr verification_failed)
       \<and> (\<forall>kvs. fetch (siteverify_request tk sk ip) = FetchResponse True (JsonValue (JObj kvs))
                  \<and> truthy (own_prop kvs ''success'') \<longrightarrow>
            fst (verifyTurnstile fetch (Some tk) (Some sk) ip) = Inr verified)
       \<and> (\<forall>e. fetch (siteverify_request tk sk ip) = FetchThrows e
                \<or> fetch (siteverify_request tk sk ip) = FetchResponse True (JsonThrows e) \<longrightarrow>
            fst (verifyTurnstile fetch (Some tk) (Some sk) ip) = Inr verification_error)
       \<and> (\<exists>r. fst (verifyTurnstile fetch (Some tk) (Some sk) ip) = Inr r)
       \<and> verification_failed =
            \<lparr>success = False, error = Some ''Security verification failed. Please try again.''\<rparr>
       \<and> verification_error =
            \<lparr>success = False, error = Some ''Security verification error. Please try again.''\<rparr>
       \<and> verified = \<lparr>success = True, error = None\<rparr>"
proof -
  let ?r = "fst (verifyTurnstile fetch (Some tk) (Some sk) ip)"
  have r: "?r = (case fst (verify_try fetch tk sk ip) of
              Inl e \<Rightarrow> Inr verification_error | Inr r \<Rightarrow> Inr r)"
    by (simp add: verifyTurnstile_truthy [OF assms])
  have 1: "\<forall>js. fetch (siteverify_request tk sk ip) = FetchResponse False js \<longrightarrow>
            ?r = Inr verification_failed"
    unfolding r by (simp add: verify_try_def Let_def)
  have 2: "\<forall>kvs. fetch (siteverify_request tk sk ip) = FetchResponse True (JsonValue (JObj kvs))
                  \<and> \<not> truthy (own_prop kvs ''success'') \<longrightarrow>
            ?r = Inr verification_failed"
    unfolding r by (simp add: verify_try_def Let_def)
  have 3: "\<forall>kvs. fetch (siteverify_request tk sk ip) = FetchResponse True (JsonValue (JObj kvs))
                  \<and> truthy (own_prop kvs ''success'') \<longrightarrow>
            ?r = Inr verified"
    unfolding r by (simp add: verify_try_def Let_def)
  have 4: "\<forall>e. fetch (siteverify_request tk sk ip) = FetchThrows e
                \<or> fetch (siteverify_request tk sk ip) = FetchResponse True (JsonThrows e) \<longrightarrow>
            ?r = Inr verification_error"
    unfolding r by (auto simp add: verify_try_def Let_def)
  have 5: "\<exists>x. ?r = Inr x"
    unfolding r by (simp split: sum.splits)
  show ?thesis
    using 1 2 3 4 5
    by (simp add: verification_failed_def verification_error_def verified_def)
qed

text \<open>
  The theorem at the five remote behaviours of the repository's tests: status 500,
  \<^verbatim>\<open>success: false\<close> with error codes, \<^verbatim>\<open>success: true\<close>, a network error and malformed
  JSON.
\<close>

theorem verify_response_handling_witness:
  "fst (verifyTurnstile remote_status_500 (Some ''token'') (Some ''secret-key'') None)
     = Inr verification_failed
   \<and> fst (verifyTurnstile (remote_says (JObj [(''success'', JBool False),
            (''error-codes'', JArr [JStr ''invalid-input-response''])]))
          (Some ''invalid-token'') (Some ''secret-key'') None) = Inr verification_failed
   \<and> fst (verifyTurnstile (remote_says (JObj [(''success'', JBool True)]))
          (Some ''valid-token'') (Some ''secret-key'') None) = Inr verified
   \<and> fst (verifyTurnstile network_down (Some ''token'') (Some ''secret-key'') None)
     = Inr verification_error
   \<and> fst (verifyTurnstile remote_malformed (Some ''token'') (Some ''secret-key'') None)
     = Inr verification_error"
  using
    verify_response_handling [of "''token''" "''secret-key''" remote_status_500 None]
    verify_response_handling [of "''invalid-token''" "''secret-key''"
      "remote_says (JObj [(''success'', JBool False),
            (''error-codes'', JArr [JStr ''invalid-input-response''])])" None]
    verify_response_handling [of "''valid-token''" "''secret-key''"
      "remote_says (JObj [(''success'', JBool True)])" None]
    verify_response_handling [of "''token''" "''secret-key''" network_down None]
    verify_response_handling [of "''token''" "''secret-key''" remote_malformed None]
  by (simp add: remote_status_500_def remote_says_def network_down_def remote_malformed_def
      own_prop_def)

text \<open>
  Claim C8. When a request is sent (token and secret truthy) it is the only one, its
  content type is URL-encoded form data, and its body holds \<^verbatim>\<open>secret\<close> and \<^verbatim>\<open>response\<close>
  with the secret and the token, in this order. The body holds \<^verbatim>\<open>remoteip\<close> exactly when a
  remote address is provided, that is when \<^verbatim>\<open>remoteIp\<close> is truthy (line 28), and then with
  that address; without one, and for the empty string, the body has no \<^verbatim>\<open>remoteip\<close> key
  at all, so never an empty field.
\<close>

theorem request_body_fields:
  assumes "tk \<noteq> []" and "sk \<noteq> []"
  shows "(\<exists>req. snd (verifyTurnstile fetch (Some tk) (Some sk) ip) = [req]
            \<and> req_headers req = [(''Content-Type'', ''application/x-www-form-urlencoded'')]
            \<and> map fst (req_body req) =
                (if truthy_str ip then [''secret'', ''response'', ''remoteip'']
                 else [''secret'', ''response''])
            \<and> map_of (req_body req) ''secret'' = Some sk
            \<and> map_of (req_body req) ''response'' = Some tk
            \<and> map_of (req_body req) ''remoteip'' = (if truthy_str ip then ip else None))"
proof -
  have "snd (verifyTurnstile fetch (Some tk) (Some sk) ip) = [siteverify_request tk sk ip]"
    by (simp add: verifyTurnstile_truthy [OF assms])
  moreover have "map fst (formData tk sk ip) =
      (if truthy_str ip then [''secret'', ''response'', ''remoteip'']
       else [''secret'', ''response''])"
    by (cases ip) (simp_all add: formData_def)
  moreover have "map_of (formData tk sk ip) ''remoteip'' = (if truthy_str ip then ip else None)"
    by (cases ip) (simp_all add: formData_def)
  moreover have "map_of (formData tk sk ip) ''secret'' = Some sk"
    and "map_of (formData tk sk ip) ''response'' = Some tk"
    by (simp_all add: formData_def)
  ultimately show ?thesis
    by (simp add: siteverify_request_def)
qed

text \<open>The theorem at the two calls of the tests, with and without a remote address.\<close>

theorem request_body_fields_witness:
  "(\<exists>req. snd (verifyTurnstile (remote_says (JObj [(''success'', JBool True)]))
                 (Some ''test-token-123'') (Some ''test-secret-456'') (Some ''192.168.1.1''))
            = [req]
          \<and> map fst (req_body req) = [''secret'', ''response'', ''remoteip'']
          \<and> map_of (req_body req) ''secret'' = Some ''test-secret-456''
          \<and> map_of (req_body req) ''response'' = Some ''test-token-123''
          \<and> map_of (req_body req) ''remoteip'' = Some ''192.168.1.1'')
   \<and> (\<exists>req. snd (verifyTurnstile (remote_says (JObj [(''success'', JBool True)]))
                 (Some ''test-token'') (Some ''test-secret'') None) = [req]
          \<and> map fst (req_body req) = [''secret'', ''response'']
          \<and> map_of (req_body req) ''remoteip'' = None)"
proof -
  have t: "''test-token-123'' \<noteq> []" "''test-secret-456'' \<noteq> []"
    "''test-token'' \<noteq> []" "''test-secret'' \<noteq> []"
    by simp_all
  from request_body_fields [OF t(1,2), where ip = "Some ''192.168.1.1''"
      and fetch = "remote_says (JObj [(''success'', JBool True)])"]
  have a: "\<exists>req. snd (verifyTurnstile (remote_says (JObj [(''success'', JBool True)]))
                 (Some ''test-token-123'') (Some ''test-secret-456'') (Some ''192.168.1.1''))
            = [req]
          \<and> map fst (req_body req) = [''secret'', ''response'', ''remoteip'']
          \<and> map_of (req_body req) ''secret'' = Some ''test-secret-456''
          \<and> map_of (req_body req) ''response'' = Some ''test-token-123''
          \<and> map_of (req_body req) ''remoteip'' = Some ''192.168.1.1''"
    by auto
  from request_body_fields [OF t(3,4), where ip = None
      and fetch = "remote_says (JObj [(''success'', JBool True)])"]
  have b: "\<exists>req. snd (verifyTurnstile (remote_says (JObj [(''success'', JBool True)]))
                 (Some ''test-token'') (Some ''test-secret'') None) = [req]
          \<and> map fst (req_body req) = [''secret'', ''response'']
          \<and> map_of (req_body req) ''remoteip'' = None"
    by auto
  from a b show ?thesis
    by (rule conjI)
qed

section \<open>The extractor's results\<close>

lemma foldl_on_field:
  "foldl on_field t fs =
     (case map_of (rev fs) ''cf-turnstile-response'' of None \<Rightarrow> t | Some v \<Rightarrow> JStr v)"
proof (induction fs arbitrary: t)
  case Nil
  show ?case by simp
next
  case (Cons f fs)
  have "foldl on_field t (f # fs) = foldl on_field (on_field t f) fs"
    by simp
  also have "\<dots> = (case map_of (rev fs) ''cf-turnstile-response'' of
                    None \<Rightarrow> on_field t f | Some v \<Rightarrow> JStr v)"
    by (rule Cons.IH)
  finally have e: "foldl on_field t (f # fs) =
      (case map_of (rev fs) ''cf-turnstile-response'' of
         None \<Rightarrow> on_field t f | Some v \<Rightarrow> JStr v)" .
  show ?case
    unfolding e by (cases f) (simp add: on_field_def map_add_def split: option.splits)
qed

lemma no_header_token:
  assumes "headers ev = Some h"
    and "\<not> truthy_str (h ''x-turnstile-token'')"
    and "\<not> truthy_str (h ''X-Turnstile-Token'')"
  shows "getTurnstileToken lib ev = token_from_body lib ev"
proof (cases "h ''X-Turnstile-Token''")
  case None
  with assms show ?thesis
    by (simp add: getTurnstileToken_def header_or_def)
next
  case (Some t)
  with assms show ?thesis
    by (simp add: getTurnstileToken_def header_or_def)
qed

lemma token_from_body_headers:
  assumes "headers ev = Some h"
    and "h' ''content-type'' = h ''content-type''"
    and "h' ''Content-Type'' = h ''Content-Type''"
  shows "token_from_body lib (ev\<lparr>headers := Some h'\<rparr>) = token_from_body lib ev"
proof -
  have t: "getTextBody lib (ev\<lparr>headers := Some h'\<rparr>) = getTextBody lib ev"
    by (simp add: getTextBody_def split: option.splits)
  have b: "getBodyBuffer (ev\<lparr>headers := Some h'\<rparr>) = getBodyBuffer ev"
    by (simp add: getBodyBuffer_def split: option.splits)
  have m: "parseMultipart lib (ev\<lparr>headers := Some h'\<rparr>) c = parseMultipart lib ev c" for c
    by (simp add: parseMultipart_def b)
  have j: "json_token lib (ev\<lparr>headers := Some h'\<rparr>) = json_token lib ev"
    by (simp add: json_token_def json_token_try_def t)
  show ?thesis
    using assms by (simp add: token_from_body_def header_or_def Let_def t m j)
qed

text \<open>
  Claim C3 says that an event without a headers object is tolerated and gives
  \<^verbatim>\<open>null\<close>. Line 80 does tolerate it (\<^verbatim>\<open>event.headers || {}\<close>), but line 88 reads
  \<^verbatim>\<open>event.headers['content-type']\<close> on the absent object: for every body and base64 flag
  the promise rejects with a TypeError.
\<close>

theorem absent_headers_throw:
  "getTurnstileToken lib \<lparr>headers = None, body = b, isBase64Encoded = f\<rparr> = Inl TypeError"
  by (simp add: getTurnstileToken_def header_or_def token_from_body_def)

text \<open>
  Claim C7 as stated fails: a token header spelled \<^verbatim>\<open>X-TURNSTILE-TOKEN\<close>, a casing of
  \<^verbatim>\<open>x-turnstile-token\<close>, is not seen, and extraction returns \<^verbatim>\<open>null\<close>.
\<close>

theorem header_token_other_casing:
  "toLowerCase ''X-TURNSTILE-TOKEN'' = ''x-turnstile-token''
   \<and> getTurnstileToken sample_lib
        \<lparr>headers = Some [''X-TURNSTILE-TOKEN'' \<mapsto> ''header-token-123''],
         body = None, isBase64Encoded = False\<rparr> = Inr JNull"
proof
  show "toLowerCase ''X-TURNSTILE-TOKEN'' = ''x-turnstile-token''"
    by code_simp
  show "getTurnstileToken sample_lib
        \<lparr>headers = Some [''X-TURNSTILE-TOKEN'' \<mapsto> ''header-token-123''],
         body = None, isBase64Encoded = False\<rparr> = Inr JNull"
    by (simp add: getTurnstileToken_def header_or_def token_from_body_def)
qed

text \<open>
  Claim C7, amended. For every event with a headers object that holds a non-empty value
  under \<^verbatim>\<open>x-turnstile-token\<close>, or else (that one absent or empty) under
  \<^verbatim>\<open>X-Turnstile-Token\<close>, extraction returns that value at once, whatever the library
  functions, the body, the base64 flag and the other headers (the content type among
  them) are. Only these two spellings are looked up.
\<close>

theorem header_token_short_circuit:
  assumes "headers ev = Some h" and "t \<noteq> []"
  shows "(h ''x-turnstile-token'' = Some t \<longrightarrow> getTurnstileToken lib ev = Inr (JStr t))
       \<and> (\<not> truthy_str (h ''x-turnstile-token'') \<and> h ''X-Turnstile-Token'' = Some t \<longrightarrow>
            getTurnstileToken lib ev = Inr (JStr t))"
  using assms by (simp add: getTurnstileToken_def header_or_def)

text \<open>
  The theorem at a lower-case header that wins over a JSON body, and at the capitalised
  header of the tests.
\<close>

theorem header_token_short_circuit_witness:
  "getTurnstileToken sample_lib
     \<lparr>headers = Some [''x-turnstile-token'' \<mapsto> ''header-token-123'',
                      ''content-type'' \<mapsto> ''application/json''],
      body = Some json_token_body, isBase64Encoded = False\<rparr> = Inr (JStr ''header-token-123'')
   \<and> getTurnstileToken sample_lib
     \<lparr>headers = Some [''X-Turnstile-Token'' \<mapsto> ''header-token-456''],
      body = None, isBase64Encoded = False\<rparr> = Inr (JStr ''header-token-456'')"
  using
    header_token_short_circuit [where lib = sample_lib and t = "''header-token-123''"
      and h = "[''x-turnstile-token'' \<mapsto> ''header-token-123'',
                ''content-type'' \<mapsto> ''application/json'']"
      and ev = "\<lparr>headers = Some [''x-turnstile-token'' \<mapsto> ''header-token-123'',
                      ''content-type'' \<mapsto> ''application/json''],
      body = Some json_token_body, isBase64Encoded = False\<rparr>"]
    header_token_short_circuit [where lib = sample_lib and t = "''header-token-456''"
      and h = "[''X-Turnstile-Token'' \<mapsto> ''header-token-456'']"
      and ev = "\<lparr>headers = Some [''X-Turnstile-Token'' \<mapsto> ''header-token-456''],
      body = None, isBase64Encoded = False\<rparr>"]
  by simp

text \<open>
  Claim C10. For every event whose \<^verbatim>\<open>x-turnstile-token\<close> header is present with the empty
  string as its value, extraction gives what it gives with that header removed; when
  \<^verbatim>\<open>X-Turnstile-Token\<close> is absent or empty too, that is the content-type-based body
  inspection, so a token in a URL-encoded body is still returned.
\<close>

theorem empty_header_token_ignored:
  assumes "headers ev = Some h" and "h ''x-turnstile-token'' = Some []"
  shows "getTurnstileToken lib ev =
           getTurnstileToken lib (ev\<lparr>headers := Some (h(''x-turnstile-token'' := None))\<rparr>)
       \<and> (\<not> truthy_str (h ''X-Turnstile-Token'') \<longrightarrow>
            getTurnstileToken lib ev = token_from_body lib ev)
       \<and> (\<forall>c v. \<not> truthy_str (h ''X-Turnstile-Token'')
              \<and> h ''content-type'' = Some c
              \<and> \<not> str_includes c ''multipart/form-data''
              \<and> str_includes c ''application/x-www-form-urlencoded''
              \<and> map_of (URLSearchParams lib (getTextBody lib ev)) ''cf-turnstile-response''
                  = Some v \<longrightarrow>
            getTurnstileToken lib ev = Inr (JStr v))"
proof -
  have a: "getTurnstileToken lib ev =
           getTurnstileToken lib (ev\<lparr>headers := Some (h(''x-turnstile-token'' := None))\<rparr>)"
    using assms
    by (simp add: getTurnstileToken_def header_or_def Let_def
        token_from_body_headers [where h = h and h' = "h(''x-turnstile-token'' := None)"]
        split: option.splits)
  have b: "\<not> truthy_str (h ''X-Turnstile-Token'') \<longrightarrow>
            getTurnstileToken lib ev = token_from_body lib ev"
    using assms by (simp add: no_header_token)
  have c: "\<forall>c v. \<not> truthy_str (h ''X-Turnstile-Token'')
              \<and> h ''content-type'' = Some c
              \<and> \<not> str_includes c ''multipart/form-data''
              \<and> str_includes c ''application/x-www-form-urlencoded''
              \<and> map_of (URLSearchParams lib (getTextBody lib ev)) ''cf-turnstile-response''
                  = Some v \<longrightarrow>
            getTurnstileToken lib ev = Inr (JStr v)"
  proof (intro allI impI)
    fix c v
    assume asm: "\<not> truthy_str (h ''X-Turnstile-Token'')
              \<and> h ''content-type'' = Some c
              \<and> \<not> str_includes c ''multipart/form-data''
              \<and> str_includes c ''application/x-www-form-urlencoded''
              \<and> map_of (URLSearchParams lib (getTextBody lib ev)) ''cf-turnstile-response''
                  = Some v"
    then have "c \<noteq> []" by auto
    with asm assms b show "getTurnstileToken lib ev = Inr (JStr v)"
      by (simp add: token_from_body_def header_or_def params_get_def)
  qed
  from a b c show ?thesis by blast
qed

text \<open>The theorem at an empty token header over a URL-encoded body that carries a token.\<close>

theorem empty_header_token_ignored_witness:
  "getTurnstileToken sample_lib
     \<lparr>headers = Some [''x-turnstile-token'' \<mapsto> '''',
                      ''content-type'' \<mapsto> ''application/x-www-form-urlencoded''],
      body = Some form_body, isBase64Encoded = False\<rparr> = Inr (JStr ''form-token-123'')"
proof -
  let ?h = "[''x-turnstile-token'' \<mapsto> '''',
             ''content-type'' \<mapsto> ''application/x-www-form-urlencoded'']"
  let ?ev = "\<lparr>headers = Some ?h, body = Some form_body, isBase64Encoded = False\<rparr>"
  have 1: "headers ?ev = Some ?h"
    by simp
  have 2: "?h ''x-turnstile-token'' = Some []"
    by simp
  have 3: "\<not> truthy_str (?h ''X-Turnstile-Token'')
      \<and> ?h ''content-type'' = Some ''application/x-www-form-urlencoded''
      \<and> \<not> str_includes ''application/x-www-form-urlencoded'' ''multipart/form-data''
      \<and> str_includes ''application/x-www-form-urlencoded''
            ''application/x-www-form-urlencoded''
      \<and> map_of (URLSearchParams sample_lib (getTextBody sample_lib ?ev))
            ''cf-turnstile-response'' = Some ''form-token-123''"
    by (simp add: sample_lib_def sample_URLSearchParams_def getTextBody_def form_body_def)
  from empty_header_token_ignored [where lib = sample_lib, OF 1 2] 3
  show ?thesis
    by blast
qed

lemma sample_lib_fields:
  "JSON_parse sample_lib = sample_JSON_parse"
  "URLSearchParams sample_lib = sample_URLSearchParams"
  "busboy sample_lib = sample_busboy"
  "base64_utf8 sample_lib = sample_base64_utf8"
  by (simp_all add: sample_lib_def)

lemma json_token_parse_fails:
  "JSON_parse lib (getTextBody lib ev) = None \<Longrightarrow> json_token lib ev = JNull"
  by (simp add: json_token_def json_token_try_def)

lemma json_token_primary:
  "JSON_parse lib (getTextBody lib ev) = Some (JObj kvs) \<Longrightarrow>
   truthy (own_prop kvs ''cf-turnstile-response'') \<Longrightarrow>
   json_token lib ev = own_prop kvs ''cf-turnstile-response''"
  by (simp add: json_token_def json_token_try_def)

lemma json_token_fallback:
  "JSON_parse lib (getTextBody lib ev) = Some (JObj kvs) \<Longrightarrow>
   \<not> truthy (own_prop kvs ''cf-turnstile-response'') \<Longrightarrow>
   truthy (own_prop kvs ''cfTurnstileResponse'') \<Longrightarrow>
   json_token lib ev = own_prop kvs ''cfTurnstileResponse''"
  by (simp add: json_token_def json_token_try_def js_or_def)

lemma json_token_neither:
  "JSON_parse lib (getTextBody lib ev) = Some (JObj kvs) \<Longrightarrow>
   \<not> truthy (own_prop kvs ''cf-turnstile-response'') \<Longrightarrow>
   \<not> truthy (own_prop kvs ''cfTurnstileResponse'') \<Longrightarrow>
   json_token lib ev = JNull"
  by (simp add: json_token_def json_token_try_def js_or_def)

lemma empty_body_text: "\<not> truthy_str (body ev) \<Longrightarrow> getTextBody lib ev = []"
  by (cases "body ev") (simp_all add: getTextBody_def)

text \<open>
  Claim C6 as stated fails: a JSON body that submits the empty string under
  \<^verbatim>\<open>cf-turnstile-response\<close> gives \<^verbatim>\<open>null\<close>, not the submitted value.
\<close>

theorem json_empty_value_is_null:
  "JSON_parse sample_lib json_empty_token = Some (JObj [(''cf-turnstile-response'', JStr [])])
   \<and> getTurnstileToken sample_lib
        \<lparr>headers = Some [''content-type'' \<mapsto> ''application/json''],
         body = Some json_empty_token, isBase64Encoded = False\<rparr> = Inr JNull
   \<and> Inr JNull \<noteq> (Inr (JStr []) :: js_error + json)"
proof -
  let ?ev = "\<lparr>headers = Some [''content-type'' \<mapsto> ''application/json''],
         body = Some json_empty_token, isBase64Encoded = False\<rparr>"
  have t: "getTextBody sample_lib ?ev = json_empty_token"
    by (simp add: getTextBody_def json_empty_token_def)
  have p: "JSON_parse sample_lib (getTextBody sample_lib ?ev) =
      Some (JObj [(''cf-turnstile-response'', JStr [])])"
    unfolding t by (simp add: sample_lib_fields sample_JSON_parse_def)
  have j: "json_token sample_lib ?ev = JNull"
    by (rule json_token_neither [OF p]) (simp_all add: own_prop_def)
  have b: "token_from_body sample_lib ?ev = Inr JNull"
    by (simp add: token_from_body_def header_or_def Let_def j)
  have "getTurnstileToken sample_lib ?ev = Inr JNull"
    by (simp add: getTurnstileToken_def header_or_def Let_def b)
  with p t show ?thesis
    by simp
qed

text \<open>
  Claim C6, amended. For an event with a headers object and no non-empty token header,
  the content type (\<^verbatim>\<open>content-type\<close>, else \<^verbatim>\<open>Content-Type\<close>, else empty) decides, by the
  first of three substrings it contains:
  \<^item> \<^verbatim>\<open>multipart/form-data\<close>: the value of the last field named \<^verbatim>\<open>cf-turnstile-response\<close>
    that the multipart parser emits, \<^verbatim>\<open>null\<close> if there is none; a parser error rejects;
  \<^item> \<^verbatim>\<open>application/x-www-form-urlencoded\<close>: the first value under
    \<^verbatim>\<open>cf-turnstile-response\<close> among the parsed pairs (empty or not), else \<^verbatim>\<open>null\<close>;
  \<^item> \<^verbatim>\<open>application/json\<close>: \<^verbatim>\<open>null\<close> on a parse failure; for a parsed object the value under
    \<^verbatim>\<open>cf-turnstile-response\<close> when it is truthy, else the value under
    \<^verbatim>\<open>cfTurnstileResponse\<close> when that is truthy, else \<^verbatim>\<open>null\<close>;
  \<^item> none of them: \<^verbatim>\<open>null\<close>.
  A missing or empty body gives \<^verbatim>\<open>null\<close> in the URL-encoded branch (the empty text has
  no pairs) and in the JSON branch (the empty text does not parse).
\<close>

theorem body_token_extraction:
  assumes "headers ev = Some h"
    and "\<not> truthy_str (h ''x-turnstile-token'')"
    and "\<not> truthy_str (h ''X-Turnstile-Token'')"
    and "ct = (case header_or h ''content-type'' ''Content-Type'' of None \<Rightarrow> [] | Some c \<Rightarrow> c)"
  shows
    "(str_includes ct ''multipart/form-data'' \<longrightarrow>
        (\<forall>fs. busboy lib ct (getBodyBuffer ev) = Inr fs \<longrightarrow>
           getTurnstileToken lib ev =
             Inr (case map_of (rev fs) ''cf-turnstile-response'' of
                    None \<Rightarrow> JNull | Some v \<Rightarrow> JStr v))
        \<and> (\<forall>e. busboy lib ct (getBodyBuffer ev) = Inl e \<longrightarrow> getTurnstileToken lib ev = Inl e))
     \<and> (\<not> str_includes ct ''multipart/form-data''
          \<and> str_includes ct ''application/x-www-form-urlencoded'' \<longrightarrow>
        getTurnstileToken lib ev =
          Inr (case map_of (URLSearchParams lib (getTextBody lib ev)) ''cf-turnstile-response'' of
                 None \<Rightarrow> JNull | Some v \<Rightarrow> JStr v)
        \<and> (\<not> truthy_str (body ev) \<and> URLSearchParams lib [] = [] \<longrightarrow>
             getTurnstileToken lib ev = Inr JNull))
     \<and> (\<not> str_includes ct ''multipart/form-data''
          \<and> \<not> str_includes ct ''application/x-www-form-urlencoded''
          \<and> str_includes ct ''application/json'' \<longrightarrow>
        (JSON_parse lib (getTextBody lib ev) = None \<longrightarrow> getTurnstileToken lib ev = Inr JNull)
        \<and> (\<forall>kvs. JSON_parse lib (getTextBody lib ev) = Some (JObj kvs)
               \<and> truthy (own_prop kvs ''cf-turnstile-response'') \<longrightarrow>
             getTurnstileToken lib ev = Inr (own_prop kvs ''cf-turnstile-response''))
        \<and> (\<forall>kvs. JSON_parse lib (getTextBody lib ev) = Some (JObj kvs)
               \<and> \<not> truthy (own_prop kvs ''cf-turnstile-response'')
               \<and> truthy (own_prop kvs ''cfTurnstileResponse'') \<longrightarrow>
             getTurnstileToken lib ev = Inr (own_prop kvs ''cfTurnstileResponse''))
        \<and> (\<forall>kvs. JSON_parse lib (getTextBody lib ev) = Some (JObj kvs)
               \<and> \<not> truthy (own_prop kvs ''cf-turnstile-response'')
               \<and> \<not> truthy (own_prop kvs ''cfTurnstileResponse'') \<longrightarrow>
             getTurnstileToken lib ev = Inr JNull)
        \<and> (\<not> truthy_str (body ev) \<and> JSON_parse lib [] = None \<longrightarrow>
             getTurnstileToken lib ev = Inr JNull))
     \<and> (\<not> str_includes ct ''multipart/form-data''
          \<and> \<not> str_includes ct ''application/x-www-form-urlencoded''
          \<and> \<not> str_includes ct ''application/json'' \<longrightarrow>
        getTurnstileToken lib ev = Inr JNull)"
proof -
  have g: "getTurnstileToken lib ev = token_from_body lib ev"
    using assms(1-3) by (rule no_header_token)
  have mp: "str_includes ct ''multipart/form-data'' \<Longrightarrow>
      token_from_body lib ev = parseMultipart lib ev ct"
    using assms(1,4) by (simp add: token_from_body_def)
  have ue: "\<not> str_includes ct ''multipart/form-data'' \<Longrightarrow>
      str_includes ct ''application/x-www-form-urlencoded'' \<Longrightarrow>
      token_from_body lib ev =
        Inr (params_get (URLSearchParams lib (getTextBody lib ev)) ''cf-turnstile-response'')"
    using assms(1,4) by (simp add: token_from_body_def)
  have js: "\<not> str_includes ct ''multipart/form-data'' \<Longrightarrow>
      \<not> str_includes ct ''application/x-www-form-urlencoded'' \<Longrightarrow>
      str_includes ct ''application/json'' \<Longrightarrow>
      token_from_body lib ev = Inr (json_token lib ev)"
    using assms(1,4) by (simp add: token_from_body_def)
  have other: "\<not> str_includes ct ''multipart/form-data'' \<Longrightarrow>
      \<not> str_includes ct ''application/x-www-form-urlencoded'' \<Longrightarrow>
      \<not> str_includes ct ''application/json'' \<Longrightarrow>
      token_from_body lib ev = Inr JNull"
    using assms(1,4) by (simp add: token_from_body_def)
  have 1: "str_includes ct ''multipart/form-data'' \<longrightarrow>
        (\<forall>fs. busboy lib ct (getBodyBuffer ev) = Inr fs \<longrightarrow>
           getTurnstileToken lib ev =
             Inr (case map_of (rev fs) ''cf-turnstile-response'' of
                    None \<Rightarrow> JNull | Some v \<Rightarrow> JStr v))
        \<and> (\<forall>e. busboy lib ct (getBodyBuffer ev) = Inl e \<longrightarrow> getTurnstileToken lib ev = Inl e)"
    by (simp add: g mp parseMultipart_def foldl_on_field)
  have 2: "\<not> str_includes ct ''multipart/form-data''
          \<and> str_includes ct ''application/x-www-form-urlencoded'' \<longrightarrow>
        getTurnstileToken lib ev =
          Inr (case map_of (URLSearchParams lib (getTextBody lib ev)) ''cf-turnstile-response'' of
                 None \<Rightarrow> JNull | Some v \<Rightarrow> JStr v)
        \<and> (\<not> truthy_str (body ev) \<and> URLSearchParams lib [] = [] \<longrightarrow>
             getTurnstileToken lib ev = Inr JNull)"
    by (simp add: g ue params_get_def empty_body_text)
  have 3: "\<not> str_includes ct ''multipart/form-data''
          \<and> \<not> str_includes ct ''application/x-www-form-urlencoded''
          \<and> str_includes ct ''application/json'' \<longrightarrow>
        (JSON_parse lib (getTextBody lib ev) = None \<longrightarrow> getTurnstileToken lib ev = Inr JNull)
        \<and> (\<forall>kvs. JSON_parse lib (getTextBody lib ev) = Some (JObj kvs)
               \<and> truthy (own_prop kvs ''cf-turnstile-response'') \<longrightarrow>
             getTurnstileToken lib ev = Inr (own_prop kvs ''cf-turnstile-response''))
        \<and> (\<forall>kvs. JSON_parse lib (getTextBody lib ev) = Some (JObj kvs)
               \<and> \<not> truthy (own_prop kvs ''cf-turnstile-response'')
               \<and> truthy (own_prop kvs ''cfTurnstileResponse'') \<longrightarrow>
             getTurnstileToken lib ev = Inr (own_prop kvs ''cfTurnstileResponse''))
        \<and> (\<forall>kvs. JSON_parse lib (getTextBody lib ev) = Some (JObj kvs)
               \<and> \<not> truthy (own_prop kvs ''cf-turnstile-response'')
               \<and> \<not> truthy (own_prop kvs ''cfTurnstileResponse'') \<longrightarrow>
             getTurnstileToken lib ev = Inr JNull)
        \<and> (\<not> truthy_str (body ev) \<and> JSON_parse lib [] = None \<longrightarrow>
             getTurnstileToken lib ev = Inr JNull)"
  proof (intro impI)
    assume c: "\<not> str_includes ct ''multipart/form-data''
          \<and> \<not> str_includes ct ''application/x-www-form-urlencoded''
          \<and> str_includes ct ''application/json''"
    then have r: "getTurnstileToken lib ev = Inr (json_token lib ev)"
      by (simp add: g js)
    have a: "JSON_parse lib (getTextBody lib ev) = None \<longrightarrow> json_token lib ev = JNull"
      by (simp add: json_token_parse_fails)
    have b: "\<forall>kvs. JSON_parse lib (getTextBody lib ev) = Some (JObj kvs)
               \<and> truthy (own_prop kvs ''cf-turnstile-response'') \<longrightarrow>
             json_token lib ev = own_prop kvs ''cf-turnstile-response''"
      by (simp add: json_token_primary)
    have d: "\<forall>kvs. JSON_parse lib (getTextBody lib ev) = Some (JObj kvs)
               \<and> \<not> truthy (own_prop kvs ''cf-turnstile-response'')
               \<and> truthy (own_prop kvs ''cfTurnstileResponse'') \<longrightarrow>
             json_token lib ev = own_prop kvs ''cfTurnstileResponse''"
      by (simp add: json_token_fallback)
    have e: "\<forall>kvs. JSON_parse lib (getTextBody lib ev) = Some (JObj kvs)
               \<and> \<not> truthy (own_prop kvs ''cf-turnstile-response'')
               \<and> \<not> truthy (own_prop kvs ''cfTurnstileResponse'') \<longrightarrow>
             json_token lib ev = JNull"
      by (simp add: json_token_neither)
    have f: "\<not> truthy_str (body ev) \<and> JSON_parse lib [] = None \<longrightarrow>
             json_token lib ev = JNull"
      by (simp add: json_token_parse_fails empty_body_text)
    from a b d e f
    show "(JSON_parse lib (getTextBody lib ev) = None \<longrightarrow> getTurnstileToken lib ev = Inr JNull)
        \<and> (\<forall>kvs. JSON_parse lib (getTextBody lib ev) = Some (JObj kvs)
               \<and> truthy (own_prop kvs ''cf-turnstile-response'') \<longrightarrow>
             getTurnstileToken lib ev = Inr (own_prop kvs ''cf-turnstile-response''))
        \<and> (\<forall>kvs. JSON_parse lib (getTextBody lib ev) = Some (JObj kvs)
               \<and> \<not> truthy (own_prop kvs ''cf-turnstile-response'')
               \<and> truthy (own_prop kvs ''cfTurnstileResponse'') \<longrightarrow>
             getTurnstileToken lib ev = Inr (own_prop kvs ''cfTurnstileResponse''))
        \<and> (\<forall>kvs. JSON_parse lib (getTextBody lib ev) = Some (JObj kvs)
               \<and> \<not> truthy (own_prop kvs ''cf-turnstile-response'')
               \<and> \<not> truthy (own_prop kvs ''cfTurnstileResponse'') \<longrightarrow>
             getTurnstileToken lib ev = Inr JNull)
        \<and> (\<not> truthy_str (body ev) \<and> JSON_parse lib [] = None \<longrightarrow>
             getTurnstileToken lib ev = Inr JNull)"
      unfolding r sum.inject by (intro conjI)
  qed
  have 4: "\<not> str_includes ct ''multipart/form-data''
          \<and> \<not> str_includes ct ''application/x-www-form-urlencoded''
          \<and> \<not> str_includes ct ''application/json'' \<longrightarrow>
        getTurnstileToken lib ev = Inr JNull"
    by (simp add: g other)
  from 1 2 3 4 show ?thesis
    by (intro conjI)
qed

text \<open>
  The theorem at four events: the base64 URL-encoded body of the tests, a JSON body
  whose primary key is empty and whose camel-case key has the token, a multipart body,
  and \<^verbatim>\<open>text/plain\<close>.
\<close>

theorem body_token_extraction_witness:
  "getTurnstileToken sample_lib
     \<lparr>headers = Some [''content-type'' \<mapsto> ''application/x-www-form-urlencoded''],
      body = Some encoded_form_body_base64, isBase64Encoded = True\<rparr>
     = Inr (JStr ''encoded-token-123'')
   \<and> getTurnstileToken sample_lib
     \<lparr>headers = Some [''content-type'' \<mapsto> ''application/json''],
      body = Some json_both_tokens, isBase64Encoded = False\<rparr>
     = Inr (JStr ''camel-token-123'')
   \<and> getTurnstileToken sample_lib
     \<lparr>headers = Some [''Content-Type'' \<mapsto> ''multipart/form-data; boundary=XyZ''],
      body = Some multipart_body, isBase64Encoded = False\<rparr>
     = Inr (JStr ''multipart-token-123'')
   \<and> getTurnstileToken sample_lib
     \<lparr>headers = Some [''content-type'' \<mapsto> ''text/plain''],
      body = Some ''some content'', isBase64Encoded = False\<rparr>
     = Inr JNull"
proof -
  let ?hu = "[''content-type'' \<mapsto> ''application/x-www-form-urlencoded'']"
  let ?eu = "\<lparr>headers = Some ?hu, body = Some encoded_form_body_base64, isBase64Encoded = True\<rparr>"
  have u: "getTurnstileToken sample_lib ?eu = Inr (JStr ''encoded-token-123'')"
  proof -
    have 1: "headers ?eu = Some ?hu"
      by simp
    have 2: "\<not> truthy_str (?hu ''x-turnstile-token'')"
      by simp
    have 3: "\<not> truthy_str (?hu ''X-Turnstile-Token'')"
      by simp
    have 4: "''application/x-www-form-urlencoded'' =
        (case header_or ?hu ''content-type'' ''Content-Type'' of None \<Rightarrow> [] | Some c \<Rightarrow> c)"
      by (simp add: header_or_def)
    have 5: "\<not> str_includes ''application/x-www-form-urlencoded'' ''multipart/form-data''
        \<and> str_includes ''application/x-www-form-urlencoded''
             ''application/x-www-form-urlencoded''"
      by simp
    have 6: "URLSearchParams sample_lib (getTextBody sample_lib ?eu) =
        [(''cf-turnstile-response'', ''encoded-token-123'')]"
      by (simp add: getTextBody_def sample_lib_fields sample_base64_utf8_def
          sample_URLSearchParams_def form_body_def encoded_form_body_def
          encoded_form_body_base64_def)
    from body_token_extraction [where lib = sample_lib, OF 1 2 3 4] 5
    have "getTurnstileToken sample_lib ?eu =
        Inr (case map_of (URLSearchParams sample_lib (getTextBody sample_lib ?eu))
                  ''cf-turnstile-response'' of
               None \<Rightarrow> JNull | Some v \<Rightarrow> JStr v)"
      by blast
    then show ?thesis
      unfolding 6 by simp
  qed
  let ?hj = "[''content-type'' \<mapsto> ''application/json'']"
  let ?ej = "\<lparr>headers = Some ?hj, body = Some json_both_tokens, isBase64Encoded = False\<rparr>"
  let ?kvs = "[(''cf-turnstile-response'', JStr []),
               (''cfTurnstileResponse'', JStr ''camel-token-123'')]"
  have j: "getTurnstileToken sample_lib ?ej = Inr (JStr ''camel-token-123'')"
  proof -
    have 1: "headers ?ej = Some ?hj"
      by simp
    have 2: "\<not> truthy_str (?hj ''x-turnstile-token'')"
      by simp
    have 3: "\<not> truthy_str (?hj ''X-Turnstile-Token'')"
      by simp
    have 4: "''application/json'' =
        (case header_or ?hj ''content-type'' ''Content-Type'' of None \<Rightarrow> [] | Some c \<Rightarrow> c)"
      by (simp add: header_or_def)
    have 5: "\<not> str_includes ''application/json'' ''multipart/form-data''
        \<and> \<not> str_includes ''application/json'' ''application/x-www-form-urlencoded''
        \<and> str_includes ''application/json'' ''application/json''"
      by simp
    have 6: "JSON_parse sample_lib (getTextBody sample_lib ?ej) = Some (JObj ?kvs)
        \<and> \<not> truthy (own_prop ?kvs ''cf-turnstile-response'')
        \<and> truthy (own_prop ?kvs ''cfTurnstileResponse'')"
      by (simp add: getTextBody_def sample_lib_fields sample_JSON_parse_def own_prop_def
          json_both_tokens_def json_empty_token_def json_camel_token_def)
    from body_token_extraction [where lib = sample_lib, OF 1 2 3 4] 5 6
    have "getTurnstileToken sample_lib ?ej = Inr (own_prop ?kvs ''cfTurnstileResponse'')"
      by blast
    then show ?thesis
      by (simp add: own_prop_def)
  qed
  let ?hm = "[''Content-Type'' \<mapsto> ''multipart/form-data; boundary=XyZ'']"
  let ?em = "\<lparr>headers = Some ?hm, body = Some multipart_body, isBase64Encoded = False\<rparr>"
  have m: "getTurnstileToken sample_lib ?em = Inr (JStr ''multipart-token-123'')"
  proof -
    have 1: "headers ?em = Some ?hm"
      by simp
    have 2: "\<not> truthy_str (?hm ''x-turnstile-token'')"
      by simp
    have 3: "\<not> truthy_str (?hm ''X-Turnstile-Token'')"
      by simp
    have 4: "''multipart/form-data; boundary=XyZ'' =
        (case header_or ?hm ''content-type'' ''Content-Type'' of None \<Rightarrow> [] | Some c \<Rightarrow> c)"
      by (simp add: header_or_def)
    have 5: "str_includes ''multipart/form-data; boundary=XyZ'' ''multipart/form-data''"
      by simp
    have b: "getBodyBuffer ?em = Buffer_utf8 multipart_body"
      by (simp add: getBodyBuffer_def multipart_body_def)
    have 6: "busboy sample_lib ''multipart/form-data; boundary=XyZ'' (getBodyBuffer ?em) =
        Inr [(''cf-turnstile-response'', ''multipart-token-123'')]"
      unfolding b by (simp add: sample_lib_fields sample_busboy_def)
    from body_token_extraction [where lib = sample_lib, OF 1 2 3 4] 5 6
    have "getTurnstileToken sample_lib ?em =
        Inr (case map_of (rev [(''cf-turnstile-response'', ''multipart-token-123'')])
                  ''cf-turnstile-response'' of
               None \<Rightarrow> JNull | Some v \<Rightarrow> JStr v)"
      by blast
    then show ?thesis
      by simp
  qed
  let ?ho = "[''content-type'' \<mapsto> ''text/plain'']"
  let ?eo = "\<lparr>headers = Some ?ho, body = Some ''some content'', isBase64Encoded = False\<rparr>"
  have o: "getTurnstileToken sample_lib ?eo = Inr JNull"
  proof -
    have 1: "headers ?eo = Some ?ho"
      by simp
    have 2: "\<not> truthy_str (?ho ''x-turnstile-token'')"
      by simp
    have 3: "\<not> truthy_str (?ho ''X-Turnstile-Token'')"
      by simp
    have 4: "''text/plain'' =
        (case header_or ?ho ''content-type'' ''Content-Type'' of None \<Rightarrow> [] | Some c \<Rightarrow> c)"
      by (simp add: header_or_def)
    have 5: "\<not> str_includes ''text/plain'' ''multipart/form-data''
        \<and> \<not> str_includes ''text/plain'' ''application/x-www-form-urlencoded''
        \<and> \<not> str_includes ''text/plain'' ''application/json''"
      by simp
    from body_token_extraction [where lib = sample_lib, OF 1 2 3 4] 5
    show ?thesis
      by blast
  qed
  from u j m o show ?thesis
    by (intro conjI)
qed

section \<open>The refresh controller's timers\<close>

lemmas timer_defs = setInterval_def setTimeout_def clearInterval_def clearCheckWidget_def
  setupReset_def fire_def Let_def WIDGET_CHECK_INTERVAL_def WIDGET_INIT_TIMEOUT_def

lemma cleanup_cleaned: "isCleanedUp (cleanup s)"
  by (simp add: cleanup_def clearInterval_def Let_def split: option.splits)

lemma cleanup_noop: "isCleanedUp s \<Longrightarrow> cleanup s = s"
  by (simp add: cleanup_def)

lemma setupReset_cleaned: "isCleanedUp (setupReset cfg s) = isCleanedUp s"
  by (simp add: timer_defs)

lemma clearCheckWidget_cleaned: "isCleanedUp (clearCheckWidget s) = isCleanedUp s"
  by (simp add: timer_defs split: option.splits)

lemma run_callback_cleaned: "isCleanedUp (run_callback cfg c s) = isCleanedUp s"
  by (cases c)
    (simp_all add: setupReset_cleaned clearCheckWidget_cleaned setInterval_def clearInterval_def
      Let_def split: option.splits)

lemma fire_cleaned: "isCleanedUp (fire cfg t s) = isCleanedUp s"
  by (simp add: fire_def Let_def run_callback_cleaned clearInterval_def split: option.splits)

lemma step_cleaned:
  assumes "step cfg e s = Some s'" and "isCleanedUp s"
  shows "isCleanedUp s'"
proof (cases e)
  case (Fire h)
  with assms show ?thesis
    by (auto simp add: fire_cleaned split: option.splits if_splits)
next
  case (Elapse d)
  with assms show ?thesis
    by (auto split: if_splits)
next
  case Teardown
  with assms show ?thesis
    by (auto simp add: cleanup_cleaned)
next
  case BeforeUnload
  with assms show ?thesis
    by (auto simp add: cleanup_cleaned)
next
  case Load
  with assms show ?thesis
    by (auto simp add: setTimeout_def split: if_splits)
next
  case (SetTurnstile b)
  with assms show ?thesis
    by auto
next
  case (SetWidgetId w)
  with assms show ?thesis
    by auto
qed

lemma run_cleaned:
  "run cfg es s = Some s' \<Longrightarrow> isCleanedUp s \<Longrightarrow> isCleanedUp s'"
proof (induction es arbitrary: s)
  case Nil
  then show ?case by simp
next
  case (Cons e es)
  then obtain s1 where s1: "step cfg e s = Some s1" and r: "run cfg es s1 = Some s'"
    by (auto split: option.splits)
  from s1 Cons.prems(2) have "isCleanedUp s1"
    by (rule step_cleaned)
  with r show ?case
    by (rule Cons.IH)
qed

text \<open>
  Claim C9. The teardown function is idempotent: a second call right after the first
  changes nothing, and after whatever happens on the page once teardown has been called,
  a further call returns without an error and leaves the whole state (timers, handles
  and flags) as it is.
\<close>

theorem teardown_idempotent:
  "cleanup (cleanup s) = cleanup s
   \<and> (\<forall>es s'. run cfg es (cleanup s) = Some s' \<longrightarrow>
         cleanup s' = s' \<and> step cfg Teardown s' = Some s')"
proof -
  have a: "cleanup (cleanup s) = cleanup s"
    by (simp add: cleanup_noop cleanup_cleaned)
  have b: "cleanup s' = s' \<and> step cfg Teardown s' = Some s'"
    if "run cfg es (cleanup s) = Some s'" for es s'
  proof -
    from that cleanup_cleaned have "isCleanedUp s'"
      by (rule run_cleaned)
    then show ?thesis
      by (simp add: cleanup_noop)
  qed
  from a b show ?thesis
    by blast
qed

text \<open>
  The theorem at a session set up with the API present, torn down, and torn down again
  after 50 ms and once more after the poll's timeout has fired.
\<close>

theorem teardown_idempotent_witness:
  "cleanup (cleanup (setupAutoRefresh sample_config (new_page True (Some ''widget-123'') False)))
     = cleanup (setupAutoRefresh sample_config (new_page True (Some ''widget-123'') False))
   \<and> (case run sample_config [Elapse 50, Teardown, Fire 2]
              (cleanup (setupAutoRefresh sample_config
                 (new_page True (Some ''widget-123'') False))) of
         None \<Rightarrow> False
       | Some s' \<Rightarrow> cleanup s' = s' \<and> step sample_config Teardown s' = Some s')"
proof -
  let ?s0 = "setupAutoRefresh sample_config (new_page True (Some ''widget-123'') False)"
  have "run sample_config [Elapse 50, Teardown, Fire 2] (cleanup ?s0) \<noteq> None"
    by (simp add: sample_config_def setupAutoRefresh_def new_page_def cleanup_def timer_defs)
  then obtain s' where r: "run sample_config [Elapse 50, Teardown, Fire 2] (cleanup ?s0) = Some s'"
    by blast
  from teardown_idempotent [where cfg = sample_config and s = ?s0] r
  have "cleanup (cleanup ?s0) = cleanup ?s0"
    and "cleanup s' = s' \<and> step sample_config Teardown s' = Some s'"
    by blast+
  with r show ?thesis
    by simp
qed

text \<open>
  Claim C1 says that after teardown no reset call ever occurs. With the API absent at
  setup, the script check of line 117 is not stopped by teardown and \<^verbatim>\<open>setupReset\<close> does
  not look at \<^verbatim>\<open>isCleanedUp\<close>: teardown is called first, the API and the widget id appear
  at 50 ms, the script check starts the poll at 100 ms, the poll starts the reset timer at
  200 ms, a second teardown call returns at once, and \<^verbatim>\<open>reset\<close> is called at 1200 ms.
\<close>

theorem teardown_before_script_load_still_resets:
  "map_option isCleanedUp
     (run sample_config
        [Teardown, Elapse 50, SetTurnstile True, SetWidgetId (Some ''widget-123''),
         Fire 1, Fire 3, Teardown, Fire 5]
        (setupAutoRefresh sample_config (new_page False None False))) = Some True
   \<and> map_option resets
     (run sample_config
        [Teardown, Elapse 50, SetTurnstile True, SetWidgetId (Some ''widget-123''),
         Fire 1, Fire 3, Teardown, Fire 5]
        (setupAutoRefresh sample_config (new_page False None False)))
     = Some [(1200, ''widget-123'')]"
  by (simp add: sample_config_def setupAutoRefresh_def new_page_def cleanup_def timer_defs)

text \<open>
  Claim C2 says that at most one poll and one reset timer are pending and that the poll
  is stopped when the reset timer starts. With the API absent at setup, \<^verbatim>\<open>load\<close> at 10 ms
  and the API at 30 ms, \<^verbatim>\<open>setupReset\<close> runs from the script check at 100 ms and again from
  the grace timeout at 510 ms, which overwrites the first poll's handle: polls 4 and 6 are
  both pending. Once the widget id is there, poll 4 clears poll 6 instead of itself and
  starts reset timer 8 at 600 ms, then reset timer 9 at 700 ms: poll 4 and resets 8 and 9
  are pending together.
\<close>

theorem double_setup_leaks_timers:
  "map_option poll_timers
     (run sample_config
        [Elapse 10, Load, Elapse 20, SetTurnstile True,
         Fire 1, Fire 4, Fire 4, Fire 4, Fire 4, Fire 3]
        (setupAutoRefresh sample_config (new_page False None False))) = Some [4, 6]
   \<and> map_option poll_timers
     (run sample_config
        [Elapse 10, Load, Elapse 20, SetTurnstile True,
         Fire 1, Fire 4, Fire 4, Fire 4, Fire 4, Fire 3,
         SetWidgetId (Some ''widget-123''), Fire 4, Fire 4]
        (setupAutoRefresh sample_config (new_page False None False))) = Some [4]
   \<and> map_option reset_timers
     (run sample_config
        [Elapse 10, Load, Elapse 20, SetTurnstile True,
         Fire 1, Fire 4, Fire 4, Fire 4, Fire 4, Fire 3,
         SetWidgetId (Some ''widget-123''), Fire 4, Fire 4]
        (setupAutoRefresh sample_config (new_page False None False))) = Some [8, 9]"
  by (simp add: sample_config_def setupAutoRefresh_def new_page_def cleanup_def timer_defs
      poll_timers_def reset_timers_def)

text \<open>
  Set up with the API present, \<^verbatim>\<open>setupReset\<close> runs once, synchronously, and no script check
  or load handler exists. Then \<open>sync_inv\<close> holds from the start and every event keeps it.
\<close>

lemma sync_inv_setup:
  "sync_inv (setupAutoRefresh cfg (new_page True wid ld))"
  by (simp add: sync_inv_def setupAutoRefresh_def new_page_def timer_defs)

lemma sync_inv_clearInterval: "sync_inv s \<Longrightarrow> sync_inv (clearInterval h s)"
  by (auto simp add: sync_inv_def clearInterval_def distinct_map_filter)

lemma sync_inv_clearCheckWidget: "sync_inv s \<Longrightarrow> sync_inv (clearCheckWidget s)"
  by (auto simp add: sync_inv_def clearCheckWidget_def clearInterval_def distinct_map_filter
      split: option.splits)

lemma sync_inv_cleanup: "sync_inv s \<Longrightarrow> sync_inv (cleanup s)"
  by (auto simp add: sync_inv_def cleanup_def clearInterval_def distinct_map_filter Let_def
      split: option.splits)

lemma sync_inv_now: "sync_inv (s\<lparr>now := n\<rparr>) = sync_inv s"
  by (simp add: sync_inv_def)

lemma sync_inv_reschedule:
  "sync_inv s \<Longrightarrow>
   sync_inv (s\<lparr>timers := map (\<lambda>u. if tid u = h then u\<lparr>due := due u + p\<rparr> else u) (timers s)\<rparr>)"
proof -
  have m: "map tid (map (\<lambda>u. if tid u = h then u\<lparr>due := due u + p\<rparr> else u) ts) = map tid ts"
    for ts :: "timer list"
    by (induction ts) simp_all
  have c: "tid \<circ> (\<lambda>u. if tid u = h then u\<lparr>due := due u + p\<rparr> else u) = tid"
    by (rule ext) simp
  show "sync_inv s \<Longrightarrow> ?thesis"
    unfolding sync_inv_def by (auto simp add: m c)
qed

lemma sync_inv_callback:
  assumes "sync_inv s"
    and "c = CheckWidget \<longrightarrow> checkWidgetInterval s \<noteq> None"
    and "c \<noteq> CheckScript" and "c \<noteq> LoadGrace" and "c \<noteq> ScriptTimeout"
  shows "sync_inv (run_callback cfg c s)"
proof (cases c)
  case CheckWidget
  with assms(2) obtain h where h: "checkWidgetInterval s = Some h"
    by auto
  with assms(1) have r: "turnstileResetInterval s = None" and nc: "\<not> isCleanedUp s"
    by (auto simp add: sync_inv_def)
  from assms(1) have d: "distinct (map tid (timers s))"
    and b: "\<forall>t\<in>set (timers s). tid t < nextId s"
    and k: "\<forall>t\<in>set (timers s). cb t = CheckWidget \<and> tid t = h \<or> cb t = InitTimeout"
    and l: "\<not> loadHandler s"
    using h r by (auto simp add: sync_inv_def)
  show ?thesis
  proof (cases "data_widget_id s")
    case None
    with CheckWidget assms(1) show ?thesis by simp
  next
    case (Some w)
    show ?thesis
    proof (cases "w = []")
      case True
      with Some CheckWidget assms(1) show ?thesis by simp
    next
      case False
      have "sync_inv (run_callback cfg CheckWidget s)"
        unfolding sync_inv_def using d b k l nc False Some h
        by (auto simp add: clearCheckWidget_def clearInterval_def setInterval_def Let_def
            distinct_map_filter)
      with CheckWidget show ?thesis
        by simp
    qed
  qed
next
  case (ResetWidget w)
  with assms(1) show ?thesis
    by (simp add: sync_inv_def)
next
  case InitTimeout
  with assms(1) show ?thesis
    by (simp add: sync_inv_clearCheckWidget)
qed (use assms in simp_all)

lemma sync_inv_fire:
  assumes "sync_inv s" and "t \<in> set (timers s)"
  shows "sync_inv (fire cfg t s)"
proof -
  from assms have c: "cb t \<noteq> CheckScript" "cb t \<noteq> LoadGrace" "cb t \<noteq> ScriptTimeout"
    and w: "cb t = CheckWidget \<longrightarrow> checkWidgetInterval s = Some (tid t)"
    by (auto simp add: sync_inv_def)
  show ?thesis
  proof (cases "period t")
    case None
    have "sync_inv (clearInterval (tid t) (s\<lparr>now := due t\<rparr>))"
      using assms(1) by (simp add: sync_inv_clearInterval sync_inv_now)
    moreover have "checkWidgetInterval (clearInterval (tid t) (s\<lparr>now := due t\<rparr>))
        = checkWidgetInterval s"
      by (simp add: clearInterval_def)
    ultimately show ?thesis
      using None c w by (simp add: fire_def Let_def sync_inv_callback)
  next
    case (Some p)
    have "sync_inv ((s\<lparr>now := due t\<rparr>)\<lparr>timers :=
        map (\<lambda>u. if tid u = tid t then u\<lparr>due := due u + p\<rparr> else u) (timers (s\<lparr>now := due t\<rparr>))\<rparr>)"
      using assms(1) by (intro sync_inv_reschedule) (simp add: sync_inv_now)
    then show ?thesis
      using Some c w by (simp add: fire_def Let_def sync_inv_callback)
  qed
qed

lemma find_in_set: "find P xs = Some x \<Longrightarrow> x \<in> set xs \<and> P x"
  by (induction xs) (auto split: if_splits)

lemma sync_inv_step:
  assumes "step cfg e s = Some s'" and "sync_inv s"
  shows "sync_inv s'"
proof (cases e)
  case (Fire h)
  with assms(1) obtain t where "find (\<lambda>t. tid t = h) (timers s) = Some t"
    and s': "s' = fire cfg t s"
    by (auto split: option.splits if_splits)
  then have "t \<in> set (timers s)"
    by (auto dest: find_in_set)
  with assms(2) s' show ?thesis
    by (simp add: sync_inv_fire)
next
  case (Elapse d)
  with assms show ?thesis
    by (auto simp add: sync_inv_now split: if_splits)
next
  case Teardown
  with assms show ?thesis
    by (auto simp add: sync_inv_cleanup)
next
  case BeforeUnload
  with assms show ?thesis
    by (auto simp add: sync_inv_cleanup)
next
  case Load
  with assms show ?thesis
    by (auto simp add: sync_inv_def split: if_splits)
next
  case (SetTurnstile b)
  with assms show ?thesis
    by (auto simp add: sync_inv_def)
next
  case (SetWidgetId w)
  with assms show ?thesis
    by (auto simp add: sync_inv_def)
qed

lemma sync_inv_run:
  "run cfg es s = Some s' \<Longrightarrow> sync_inv s \<Longrightarrow> sync_inv s'"
proof (induction es arbitrary: s)
  case Nil
  then show ?case by simp
next
  case (Cons e es)
  then obtain s1 where s1: "step cfg e s = Some s1" and r: "run cfg es s1 = Some s'"
    by (auto split: option.splits)
  from s1 Cons.prems(2) have "sync_inv s1"
    by (rule sync_inv_step)
  with r show ?case
    by (rule Cons.IH)
qed

lemma distinct_all_same:
  "distinct xs \<Longrightarrow> \<forall>x\<in>set xs. x = h \<Longrightarrow> length xs \<le> Suc 0"
  by (cases xs; cases "tl xs") auto

lemma sync_inv_single_timers:
  assumes "sync_inv s"
  shows "length (poll_timers s) \<le> 1 \<and> length (reset_timers s) \<le> 1
       \<and> (poll_timers s = [] \<or> reset_timers s = [])"
proof -
  from assms have d: "distinct (map tid (timers s))"
    by (simp add: sync_inv_def)
  have dp: "distinct (poll_timers s)" and dr: "distinct (reset_timers s)"
    using d by (simp_all add: poll_timers_def reset_timers_def distinct_map_filter)
  have p: "\<forall>x\<in>set (poll_timers s). checkWidgetInterval s = Some x"
    and r: "\<forall>x\<in>set (reset_timers s). turnstileResetInterval s = Some x"
    using assms by (auto simp add: sync_inv_def poll_timers_def reset_timers_def)
  have "length (poll_timers s) \<le> Suc 0"
  proof (cases "checkWidgetInterval s")
    case None
    with p show ?thesis by (cases "poll_timers s") auto
  next
    case (Some h)
    with p dp show ?thesis by (intro distinct_all_same [where h = h]) auto
  qed
  moreover have "length (reset_timers s) \<le> Suc 0"
  proof (cases "turnstileResetInterval s")
    case None
    with r show ?thesis by (cases "reset_timers s") auto
  next
    case (Some h)
    with r dr show ?thesis by (intro distinct_all_same [where h = h]) auto
  qed
  moreover have "poll_timers s = [] \<or> reset_timers s = []"
  proof (rule ccontr)
    assume "\<not> (poll_timers s = [] \<or> reset_timers s = [])"
    then obtain x y where "x \<in> set (poll_timers s)" and "y \<in> set (reset_timers s)"
      by (cases "poll_timers s"; cases "reset_timers s") auto
    with p r have "checkWidgetInterval s = Some x" and "turnstileResetInterval s = Some y"
      by auto
    with assms show False
      by (auto simp add: sync_inv_def)
  qed
  ultimately show ?thesis
    by simp
qed

text \<open>
  With the API present at setup, at most one poll and at most one reset timer are
  pending in every reachable state, and never both.
\<close>

lemma api_present_single_timers:
  assumes "run cfg es (setupAutoRefresh cfg (new_page True wid ld)) = Some s"
  shows "length (poll_timers s) \<le> 1 \<and> length (reset_timers s) \<le> 1
       \<and> (poll_timers s = [] \<or> reset_timers s = [])"
  using sync_inv_run [OF assms sync_inv_setup] by (rule sync_inv_single_timers)

lemma sync_cleaned_step_resets:
  assumes "step cfg e s = Some s'" and "sync_inv s" and "isCleanedUp s"
  shows "resets s' = resets s"
proof (cases e)
  case (Fire h)
  with assms(1) obtain t where "find (\<lambda>t. tid t = h) (timers s) = Some t"
    and s': "s' = fire cfg t s"
    by (auto split: option.splits if_splits)
  then have "t \<in> set (timers s)"
    by (auto dest: find_in_set)
  with assms(2,3) have c: "cb t = InitTimeout"
    by (auto simp add: sync_inv_def)
  show ?thesis
    unfolding s' by (simp add: c fire_def Let_def clearCheckWidget_def clearInterval_def
        split: option.splits)
next
  case (Elapse d)
  with assms show ?thesis
    by (auto split: if_splits)
next
  case Teardown
  with assms show ?thesis
    by (auto simp add: cleanup_def)
next
  case BeforeUnload
  with assms show ?thesis
    by (auto simp add: cleanup_def)
next
  case Load
  with assms show ?thesis
    by (auto simp add: setTimeout_def split: if_splits)
next
  case (SetTurnstile b)
  with assms show ?thesis
    by auto
next
  case (SetWidgetId w)
  with assms show ?thesis
    by auto
qed

lemma sync_cleaned_run_resets:
  "run cfg es s = Some s' \<Longrightarrow> sync_inv s \<Longrightarrow> isCleanedUp s \<Longrightarrow> resets s' = resets s"
proof (induction es arbitrary: s)
  case Nil
  then show ?case by simp
next
  case (Cons e es)
  then obtain s1 where s1: "step cfg e s = Some s1" and r: "run cfg es s1 = Some s'"
    by (auto split: option.splits)
  from s1 Cons.prems(2,3) have "sync_inv s1" and "isCleanedUp s1" and "resets s1 = resets s"
    by (auto intro: sync_inv_step step_cleaned sync_cleaned_step_resets)
  with r Cons.IH [of s1] show ?case
    by simp
qed

lemma cleanup_resets: "resets (cleanup s) = resets s"
  by (simp add: cleanup_def clearInterval_def Let_def split: option.splits)

text \<open>
  With the API present at setup, nothing that happens after teardown calls
  \<^verbatim>\<open>reset\<close>: the log of reset calls stays what it was when teardown was called.
\<close>

lemma api_present_teardown_stops_resets:
  assumes "run cfg es (setupAutoRefresh cfg (new_page True wid ld)) = Some s"
    and "run cfg es' (cleanup s) = Some s'"
  shows "resets s' = resets s"
proof -
  from assms(1) have "sync_inv s"
    using sync_inv_setup by (rule sync_inv_run)
  then have "sync_inv (cleanup s)"
    by (rule sync_inv_cleanup)
  with assms(2) have "resets s' = resets (cleanup s)"
    using cleanup_cleaned by (rule sync_cleaned_run_resets)
  then show ?thesis
    by (simp add: cleanup_resets)
qed

end
